theory Spec2Isabelle
  imports Complex_Main
begin

section \<open>The VTOL dynamics simulator (vtolDynamicsSim.cpp), embedded in HOL\<close>

text \<open>
  The simulator computes in \<^verbatim>\<open>double\<close>. Here a \<^verbatim>\<open>double\<close> is a \<^typ>\<open>real\<close>:
  the formulas are those of the source, evaluated without rounding; infinities and NaN
  have no counterpart. A \<^verbatim>\<open>std::vector<double>\<close> and an \<^verbatim>\<open>Eigen::VectorXd\<close> are
  lists, an \<^verbatim>\<open>Eigen::MatrixXd\<close> is the list of its rows, the fixed-size Eigen types are
  tuples. A \<^verbatim>\<open>size_t\<close> index is a \<^typ>\<open>nat\<close>; a row index stays far below the
  range of \<^verbatim>\<open>size_t\<close>, so no wrap-around is written out. Reading a vector beyond its end
  is undefined in the source and an unspecified value here; where a conclusion rests on a
  value read or on a write taking effect, the theorem assumes the sizes the source gives
  the vectors. Text written to \<^verbatim>\<open>std::cerr\<close> is returned as a list of log lines.
\<close>

subsection \<open>Data\<close>

type_synonym Vector3d = "real \<times> real \<times> real"

text \<open>A quaternion lists its coefficients in the order of the constructor
  \<^verbatim>\<open>Eigen::Quaterniond(w, x, y, z)\<close>.\<close>

type_synonym Quaterniond = "real \<times> real \<times> real \<times> real"

type_synonym Matrix3d = "Vector3d \<times> Vector3d \<times> Vector3d"

type_synonym VectorXd = "real list"

type_synonym MatrixXd = "real list list"

datatype log_line = WrongControlSize nat

record VtolParameters =
  mass :: real
  gravity :: real
  atmoRho :: real
  wingArea :: real
  characteristicLength :: real
  propellersLocation :: "Vector3d list"
  actuatorMin :: "real list"
  actuatorMax :: "real list"
  inertia :: Matrix3d
  accVariance :: real
  gyroVariance :: real

record TablesWithCoeffs =
  CS_rudder :: MatrixXd
  CS_beta :: MatrixXd
  AoA :: MatrixXd
  AoS :: MatrixXd
  actuator :: MatrixXd
  airspeed :: MatrixXd
  CLPolynomial :: MatrixXd
  CSPolynomial :: MatrixXd
  CDPolynomial :: MatrixXd
  CmxPolynomial :: MatrixXd
  CmyPolynomial :: MatrixXd
  CmzPolynomial :: MatrixXd
  CmxAileron :: MatrixXd
  CmyElevator :: MatrixXd
  CmzRudder :: MatrixXd
  prop_table :: MatrixXd
  actuatorTimeConstants :: "real list"

text \<open>The calibration modes named by \<^verbatim>\<open>calibrate\<close>. The selector arrives as a byte cast
  to the enumeration, so a value that is none of the enumerators is possible; it takes the
  \<^verbatim>\<open>default\<close> branch and is \<open>UNLISTED\<close> here.\<close>

datatype CalibrationType_t =
    WORK_MODE
  | MAG_1_NORMAL | MAG_2_OVERTURNED | MAG_3_HEAD_DOWN | MAG_4_HEAD_UP
  | MAG_5_TURNED_LEFT | MAG_6_TURNED_RIGHT
  | MAG_7_ARDUPILOT | MAG_8_ARDUPILOT | MAG_9_ARDUPILOT
  | ACC_1_NORMAL | ACC_2_OVERTURNED | ACC_3_HEAD_DOWN | ACC_4_HEAD_UP
  | ACC_5_TURNED_LEFT | ACC_6_TURNED_RIGHT
  | AIRSPEED
  | UNLISTED nat

text \<open>The member \<^verbatim>\<open>state_\<close>, together with the function-local static
  \<^verbatim>\<open>prevCalibrationType\<close> of \<^verbatim>\<open>calibrate\<close>. \<open>motorsRpm\<close> holds the five rpm values
  (four lift rotors, then the forward engine); \<open>Fmotors\<close> and \<open>Mmotors\<close> are the
  \<^verbatim>\<open>std::array<Eigen::Vector3d, 5>\<close> of the accessors.\<close>

record State =
  position :: Vector3d
  attitude :: Quaterniond
  linearVel :: Vector3d
  angularVel :: Vector3d
  linearAccel :: Vector3d
  angularAccel :: Vector3d
  initialPose :: Vector3d
  initialAttitude :: Quaterniond
  Fspecific :: Vector3d
  Faero :: Vector3d
  Maero :: Vector3d
  Ftotal :: Vector3d
  Mtotal :: Vector3d
  Flift :: Vector3d
  Fdrug :: Vector3d
  Fside :: Vector3d
  Msteer :: Vector3d
  Mairspeed :: Vector3d
  MmotorsTotal :: Vector3d
  bodylinearVel :: Vector3d
  Fmotors :: "Vector3d list"
  Mmotors :: "Vector3d list"
  motorsRpm :: "real list"
  prevActuators :: "real list"
  crntActuators :: "real list"
  windVelocity :: Vector3d
  windVariance :: real
  accelBias :: Vector3d
  gyroBias :: Vector3d
  prevCalibrationType :: CalibrationType_t

subsection \<open>Actuator mixers\<close>

text \<open>\<^verbatim>\<open>boost::algorithm::clamp(val, lo, hi)\<close>.\<close>

definition clamp :: "real \<Rightarrow> real \<Rightarrow> real \<Rightarrow> real" where
  "clamp val lo hi = (if val < lo then lo else if hi < val then hi else val)"

text \<open>The body of the loop over the throttle-class channels 0..4.\<close>

definition scaleThrottle :: "VtolParameters \<Rightarrow> nat \<Rightarrow> real list \<Rightarrow> real list" where
  "scaleThrottle p idx actuators =
     (let a = actuators[idx := clamp (actuators ! idx) 0 1]
      in a[idx := a ! idx * actuatorMax p ! idx])"

text \<open>The body of the loop over the surface-class channels 5..7.\<close>

definition scaleSurface :: "VtolParameters \<Rightarrow> nat \<Rightarrow> real list \<Rightarrow> real list" where
  "scaleSurface p idx actuators =
     (let a = actuators[idx := clamp (actuators ! idx) (- 1) 1]
      in a[idx := a ! idx * (if a ! idx \<ge> 0 then actuatorMax p ! idx
                             else - actuatorMin p ! idx)])"

definition mapCmdToActuatorStandardVTOL ::
    "VtolParameters \<Rightarrow> real list \<Rightarrow> log_line list \<times> real list" where
  "mapCmdToActuatorStandardVTOL p cmd =
     (if length cmd \<noteq> 8 then ([WrongControlSize (length cmd)], cmd)
      else
        let actuators = [cmd ! 0, cmd ! 1, cmd ! 2, cmd ! 3, cmd ! 4,
                         (cmd ! 5 - cmd ! 6) / 2, - cmd ! 7, 0];
            actuators = fold (scaleThrottle p) [0..<5] actuators;
            actuators = fold (scaleSurface p) [5..<8] actuators
        in ([], actuators))"

definition mapCmdToActuatorInnoVTOL ::
    "VtolParameters \<Rightarrow> real list \<Rightarrow> log_line list \<times> real list" where
  "mapCmdToActuatorInnoVTOL p cmd =
     (if length cmd \<noteq> 8 then ([WrongControlSize (length cmd)], cmd)
      else
        let actuators = [cmd ! 0, cmd ! 1, cmd ! 2, cmd ! 3,
                         cmd ! 7, cmd ! 4, cmd ! 5, cmd ! 6];
            actuators = fold (scaleThrottle p) [0..<5] actuators;
            actuators = actuators[5 := (actuators ! 5 - 0.5) * 2];
            actuators = fold (scaleSurface p) [5..<8] actuators
        in ([], actuators))"

subsection \<open>Actuator lag\<close>

text \<open>The body of the loop of \<^verbatim>\<open>updateActuators\<close>, on the pair of the command vector
  (updated in place through the reference) and the state. \<^verbatim>\<open>pow(2.71, y)\<close> is
  \<open>2.71 powr y\<close>.\<close>

definition updateActuator ::
    "TablesWithCoeffs \<Rightarrow> real \<Rightarrow> nat \<Rightarrow> real list \<times> State \<Rightarrow> real list \<times> State" where
  "updateActuator tb dtSecs idx cs =
     (let cmd = fst cs; s = snd cs;
          cmd_delta = prevActuators s ! idx - cmd ! idx;
          cmd = cmd[idx := cmd ! idx
                  + cmd_delta * (1 - 2.71 powr (- dtSecs / actuatorTimeConstants tb ! idx))]
      in (cmd, s\<lparr>crntActuators := (crntActuators s)[idx := cmd ! idx]\<rparr>))"

definition updateActuators ::
    "TablesWithCoeffs \<Rightarrow> real list \<Rightarrow> real \<Rightarrow> State \<Rightarrow> real list \<times> State" where
  "updateActuators tb cmd dtSecs s =
     fold (updateActuator tb dtSecs) [0..<8] (cmd, s\<lparr>prevActuators := crntActuators s\<rparr>)"

subsection \<open>Accessors\<close>

definition getMotorsRpm :: "State \<Rightarrow> real list \<Rightarrow> bool \<times> real list" where
  "getMotorsRpm s rpm =
     (let rpm = rpm @ [motorsRpm s ! 0];
          rpm = rpm @ [motorsRpm s ! 1];
          rpm = rpm @ [motorsRpm s ! 2];
          rpm = rpm @ [motorsRpm s ! 3];
          rpm = rpm @ [motorsRpm s ! 4]
      in (True, rpm))"

subsection \<open>Aerodynamics\<close>

definition calculateDynamicPressure :: "VtolParameters \<Rightarrow> real \<Rightarrow> real" where
  "calculateDynamicPressure p airSpeedMod = atmoRho p * airSpeedMod * airSpeedMod * wingArea p"

subsection \<open>Helpers of common\_math.hpp\<close>

text \<open>Modelled from the spec: \<^verbatim>\<open>Math::lerp\<close> of common\_math.hpp, which is not among the
  sources at hand. The spec has the interpolated coefficients vary linearly between the
  breakpoints, and the tests of \<^verbatim>\<open>Math::calculatePolynomial\<close> fix the order of the
  arguments: at fraction \<open>t\<close> between \<open>a\<close> and \<open>b\<close>.\<close>

definition lerp :: "real \<Rightarrow> real \<Rightarrow> real \<Rightarrow> real" where
  "lerp a b t = a + t * (b - a)"

text \<open>Modelled from the spec: \<^verbatim>\<open>Math::polyval\<close> of common\_math.hpp, which is not among
  the sources at hand: the value of the polynomial whose coefficients are listed from the
  highest power down (the test \<^verbatim>\<open>CommonMath.polyval\<close> fixes that order).\<close>

definition polyval :: "VectorXd \<Rightarrow> real \<Rightarrow> real" where
  "polyval poly val = foldl (\<lambda>acc c. acc * val + c) 0 poly"

text \<open>\<^verbatim>\<open>Math::findPrevRowIdxInMonotonicSequence\<close> is declared in common\_math.hpp as well.
  Every function that calls it takes it as its first argument here, of this type: the
  matrix whose first column holds the breakpoints, the key, and the row index returned.\<close>

type_synonym findPrevRowIdx = "MatrixXd \<Rightarrow> real \<Rightarrow> nat"

subsection \<open>Eigen\<close>

definition rows :: "MatrixXd \<Rightarrow> nat" where
  "rows m = length m"

definition cols :: "MatrixXd \<Rightarrow> nat" where
  "cols m = (case m of [] \<Rightarrow> 0 | r # _ \<Rightarrow> length r)"

definition vadd :: "Vector3d \<Rightarrow> Vector3d \<Rightarrow> Vector3d" where
  "vadd a b =
     (case (a, b) of ((a0, a1, a2), (b0, b1, b2)) \<Rightarrow>
       (a0 + b0, a1 + b1, a2 + b2))"

definition vsub :: "Vector3d \<Rightarrow> Vector3d \<Rightarrow> Vector3d" where
  "vsub a b =
     (case (a, b) of ((a0, a1, a2), (b0, b1, b2)) \<Rightarrow>
       (a0 - b0, a1 - b1, a2 - b2))"

definition smul :: "real \<Rightarrow> Vector3d \<Rightarrow> Vector3d" where
  "smul k a =
     (case a of (a0, a1, a2) \<Rightarrow>
       (k * a0, k * a1, k * a2))"

definition sdiv :: "Vector3d \<Rightarrow> real \<Rightarrow> Vector3d" where
  "sdiv a k =
     (case a of (a0, a1, a2) \<Rightarrow>
       (a0 / k, a1 / k, a2 / k))"

definition cross :: "Vector3d \<Rightarrow> Vector3d \<Rightarrow> Vector3d" where
  "cross a b =
     (case (a, b) of ((a0, a1, a2), (b0, b1, b2)) \<Rightarrow>
       (a1 * b2 - a2 * b1, a2 * b0 - a0 * b2, a0 * b1 - a1 * b0))"

definition squaredNorm :: "Vector3d \<Rightarrow> real" where
  "squaredNorm a =
     (case a of (a0, a1, a2) \<Rightarrow>
       a0 * a0 + a1 * a1 + a2 * a2)"

definition norm3 :: "Vector3d \<Rightarrow> real" where
  "norm3 v = sqrt (squaredNorm v)"

text \<open>\<^verbatim>\<open>normalized()\<close> divides by the norm when the squared norm is positive and returns the
  vector as it is otherwise; \<^verbatim>\<open>normalize()\<close> does the same in place.\<close>

definition normalized :: "Vector3d \<Rightarrow> Vector3d" where
  "normalized v = (let z = squaredNorm v in if z > 0 then sdiv v (sqrt z) else v)"

definition vz :: "Vector3d \<Rightarrow> real" where
  "vz a =
     (case a of (a0, a1, a2) \<Rightarrow>
       a2)"

definition mulMV :: "Matrix3d \<Rightarrow> Vector3d \<Rightarrow> Vector3d" where
  "mulMV m v =
     (case (m, v) of (((m00, m01, m02), (m10, m11, m12), (m20, m21, m22)), (v0, v1, v2)) \<Rightarrow>
       (m00 * v0 + m01 * v1 + m02 * v2,
      m10 * v0 + m11 * v1 + m12 * v2,
      m20 * v0 + m21 * v1 + m22 * v2))"

definition transpose3 :: "Matrix3d \<Rightarrow> Matrix3d" where
  "transpose3 m =
     (case m of ((m00, m01, m02), (m10, m11, m12), (m20, m21, m22)) \<Rightarrow>
       ((m00, m10, m20), (m01, m11, m21), (m02, m12, m22)))"

definition determinant3 :: "Matrix3d \<Rightarrow> real" where
  "determinant3 m =
     (case m of ((m00, m01, m02), (m10, m11, m12), (m20, m21, m22)) \<Rightarrow>
       (m11 * m22 - m12 * m21) * m00 + (m21 * m02 - m22 * m01) * m10
       + (m01 * m12 - m02 * m11) * m20)"

text \<open>The inverse of a fixed-size 3x3 matrix: the cofactors times the reciprocal of the
  determinant.\<close>

definition inverse3 :: "Matrix3d \<Rightarrow> Matrix3d" where
  "inverse3 m =
     (case m of ((m00, m01, m02), (m10, m11, m12), (m20, m21, m22)) \<Rightarrow>
       (let invdet = 1 / determinant3 ((m00, m01, m02), (m10, m11, m12), (m20, m21, m22))
      in (((m11 * m22 - m12 * m21) * invdet, (m21 * m02 - m22 * m01) * invdet,
           (m01 * m12 - m02 * m11) * invdet),
          ((m12 * m20 - m10 * m22) * invdet, (m22 * m00 - m20 * m02) * invdet,
           (m02 * m10 - m00 * m12) * invdet),
          ((m10 * m21 - m11 * m20) * invdet, (m20 * m01 - m21 * m00) * invdet,
           (m00 * m11 - m01 * m10) * invdet))))"

text \<open>The quaternion product \<^verbatim>\<open>a * b\<close>.\<close>

definition qmul :: "Quaterniond \<Rightarrow> Quaterniond \<Rightarrow> Quaterniond" where
  "qmul a b =
     (case (a, b) of ((aw, ax, ay, az), (bw, bx, by, bz)) \<Rightarrow>
       (aw * bw - ax * bx - ay * by - az * bz,
      aw * bx + ax * bw + ay * bz - az * by,
      aw * by + ay * bw + az * bx - ax * bz,
      aw * bz + az * bw + ax * by - ay * bx))"

definition qadd :: "Quaterniond \<Rightarrow> Quaterniond \<Rightarrow> Quaterniond" where
  "qadd a b =
     (case (a, b) of ((aw, ax, ay, az), (bw, bx, by, bz)) \<Rightarrow>
       (aw + bw, ax + bx, ay + by, az + bz))"

definition qscale :: "Quaterniond \<Rightarrow> real \<Rightarrow> Quaterniond" where
  "qscale a k =
     (case a of (aw, ax, ay, az) \<Rightarrow>
       (aw * k, ax * k, ay * k, az * k))"

definition qsquaredNorm :: "Quaterniond \<Rightarrow> real" where
  "qsquaredNorm a =
     (case a of (aw, ax, ay, az) \<Rightarrow>
       ax * ax + ay * ay + az * az + aw * aw)"

definition qnorm :: "Quaterniond \<Rightarrow> real" where
  "qnorm q = sqrt (qsquaredNorm q)"

definition qdiv :: "Quaterniond \<Rightarrow> real \<Rightarrow> Quaterniond" where
  "qdiv a k =
     (case a of (aw, ax, ay, az) \<Rightarrow>
       (aw / k, ax / k, ay / k, az / k))"

definition qnormalize :: "Quaterniond \<Rightarrow> Quaterniond" where
  "qnormalize q = (let z = qsquaredNorm q in if z > 0 then qdiv q (sqrt z) else q)"

definition toRotationMatrix :: "Quaterniond \<Rightarrow> Matrix3d" where
  "toRotationMatrix q =
     (case q of (w, x, y, z) \<Rightarrow>
       (let tx = 2 * x; ty = 2 * y; tz = 2 * z;
          twx = tx * w; twy = ty * w; twz = tz * w;
          txx = tx * x; txy = ty * x; txz = tz * x;
          tyy = ty * y; tyz = tz * y; tzz = tz * z
      in ((1 - (tyy + tzz), txy - twz, txz + twy),
          (txy + twz, 1 - (txx + tzz), tyz - twx),
          (txz - twy, tyz + twx, 1 - (txx + tyy)))))"

subsection \<open>Coefficient tables\<close>

text \<open>\<^verbatim>\<open>calculatePolynomialUsingTable\<close> returns its flag and the coefficient vector it was
  given by reference. \<^verbatim>\<open>abs\<close> is the absolute value.\<close>

definition calculatePolynomialUsingTable ::
    "findPrevRowIdx \<Rightarrow> MatrixXd \<Rightarrow> real \<Rightarrow> VectorXd \<Rightarrow> bool \<times> VectorXd" where
  "calculatePolynomialUsingTable findPrev table airSpeedMod polynomialCoeffs =
     (if cols table < 2 \<or> rows table < 2
         \<or> int (length polynomialCoeffs) < int (cols table) - 1
      then (False, polynomialCoeffs)
      else
        let prevRowIdx = findPrev table airSpeedMod in
        if prevRowIdx + 2 > rows table then (False, polynomialCoeffs)
        else
          let nextRowIdx = prevRowIdx + 1;
              airspeedStep = table ! nextRowIdx ! 0 - table ! prevRowIdx ! 0 in
          if \<bar>airspeedStep\<bar> < 0.001 then (False, polynomialCoeffs)
          else
            let delta = (airSpeedMod - table ! prevRowIdx ! 0) / airspeedStep;
                numberOfCoeffs = cols table - 1
            in (True,
                fold (\<lambda>coeff_idx coeffs.
                        coeffs[coeff_idx :=
                          lerp (table ! prevRowIdx ! (coeff_idx + 1))
                               (table ! nextRowIdx ! (coeff_idx + 1)) delta])
                     [0..<numberOfCoeffs] polynomialCoeffs))"

definition calculateCLPolynomial ::
    "findPrevRowIdx \<Rightarrow> TablesWithCoeffs \<Rightarrow> real \<Rightarrow> VectorXd \<Rightarrow> VectorXd" where
  "calculateCLPolynomial findPrev tb airSpeedMod polynomialCoeffs =
     snd (calculatePolynomialUsingTable findPrev (CLPolynomial tb) airSpeedMod polynomialCoeffs)"

definition calculateCSPolynomial ::
    "findPrevRowIdx \<Rightarrow> TablesWithCoeffs \<Rightarrow> real \<Rightarrow> VectorXd \<Rightarrow> VectorXd" where
  "calculateCSPolynomial findPrev tb airSpeedMod polynomialCoeffs =
     snd (calculatePolynomialUsingTable findPrev (CSPolynomial tb) airSpeedMod polynomialCoeffs)"

definition calculateCDPolynomial ::
    "findPrevRowIdx \<Rightarrow> TablesWithCoeffs \<Rightarrow> real \<Rightarrow> VectorXd \<Rightarrow> VectorXd" where
  "calculateCDPolynomial findPrev tb airSpeedMod polynomialCoeffs =
     snd (calculatePolynomialUsingTable findPrev (CDPolynomial tb) airSpeedMod polynomialCoeffs)"

definition calculateCmxPolynomial ::
    "findPrevRowIdx \<Rightarrow> TablesWithCoeffs \<Rightarrow> real \<Rightarrow> VectorXd \<Rightarrow> VectorXd" where
  "calculateCmxPolynomial findPrev tb airSpeedMod polynomialCoeffs =
     snd (calculatePolynomialUsingTable findPrev (CmxPolynomial tb) airSpeedMod polynomialCoeffs)"

definition calculateCmyPolynomial ::
    "findPrevRowIdx \<Rightarrow> TablesWithCoeffs \<Rightarrow> real \<Rightarrow> VectorXd \<Rightarrow> VectorXd" where
  "calculateCmyPolynomial findPrev tb airSpeedMod polynomialCoeffs =
     snd (calculatePolynomialUsingTable findPrev (CmyPolynomial tb) airSpeedMod polynomialCoeffs)"

definition calculateCmzPolynomial ::
    "findPrevRowIdx \<Rightarrow> TablesWithCoeffs \<Rightarrow> real \<Rightarrow> VectorXd \<Rightarrow> VectorXd" where
  "calculateCmzPolynomial findPrev tb airSpeedMod polynomialCoeffs =
     snd (calculatePolynomialUsingTable findPrev (CmzPolynomial tb) airSpeedMod polynomialCoeffs)"

text \<open>\<^verbatim>\<open>griddata\<close>: \<open>x\<close> and \<open>y\<close> are column vectors, read by \<^verbatim>\<open>x(i)\<close>;
  \<open>z\<close> is read by \<^verbatim>\<open>z(row, col)\<close>.\<close>

definition griddata ::
    "findPrevRowIdx \<Rightarrow> MatrixXd \<Rightarrow> MatrixXd \<Rightarrow> MatrixXd \<Rightarrow> real \<Rightarrow> real \<Rightarrow> real" where
  "griddata findPrev x y z x_val y_val =
     (let x1_idx = findPrev x x_val;
          y1_idx = findPrev y y_val;
          x2_idx = x1_idx + 1;
          y2_idx = y1_idx + 1;
          Q11 = z ! y1_idx ! x1_idx;
          Q12 = z ! y2_idx ! x1_idx;
          Q21 = z ! y1_idx ! x2_idx;
          Q22 = z ! y2_idx ! x2_idx;
          R1 = ((x ! x2_idx ! 0 - x_val) * Q11 + (x_val - x ! x1_idx ! 0) * Q21)
                 / (x ! x2_idx ! 0 - x ! x1_idx ! 0);
          R2 = ((x ! x2_idx ! 0 - x_val) * Q12 + (x_val - x ! x1_idx ! 0) * Q22)
                 / (x ! x2_idx ! 0 - x ! x1_idx ! 0);
          f = ((y ! y2_idx ! 0 - y_val) * R1 + (y_val - y ! y1_idx ! 0) * R2)
                 / (y ! y2_idx ! 0 - y ! y1_idx ! 0)
      in f)"

text \<open>The unary minus of a matrix, as in \<^verbatim>\<open>-tables_.actuator\<close>.\<close>

definition mneg :: "MatrixXd \<Rightarrow> MatrixXd" where
  "mneg m = map (map uminus) m"

definition calculateCSRudder :: "findPrevRowIdx \<Rightarrow> TablesWithCoeffs \<Rightarrow> real \<Rightarrow> real \<Rightarrow> real" where
  "calculateCSRudder findPrev tb rudder_pos airspeedV =
     griddata findPrev (mneg (actuator tb)) (airspeed tb) (CS_rudder tb) rudder_pos airspeedV"

definition calculateCSBeta :: "findPrevRowIdx \<Rightarrow> TablesWithCoeffs \<Rightarrow> real \<Rightarrow> real \<Rightarrow> real" where
  "calculateCSBeta findPrev tb AoS_deg airspeedV =
     griddata findPrev (mneg (AoS tb)) (airspeed tb) (CS_beta tb) AoS_deg airspeedV"

definition calculateCmxAileron :: "findPrevRowIdx \<Rightarrow> TablesWithCoeffs \<Rightarrow> real \<Rightarrow> real \<Rightarrow> real" where
  "calculateCmxAileron findPrev tb aileron_pos airspeedV =
     griddata findPrev (actuator tb) (airspeed tb) (CmxAileron tb) aileron_pos airspeedV"

definition calculateCmyElevator :: "findPrevRowIdx \<Rightarrow> TablesWithCoeffs \<Rightarrow> real \<Rightarrow> real \<Rightarrow> real" where
  "calculateCmyElevator findPrev tb elevator_pos airspeedV =
     griddata findPrev (actuator tb) (airspeed tb) (CmyElevator tb) elevator_pos airspeedV"

definition calculateCmzRudder :: "findPrevRowIdx \<Rightarrow> TablesWithCoeffs \<Rightarrow> real \<Rightarrow> real \<Rightarrow> real" where
  "calculateCmzRudder findPrev tb rudder_pos airspeedV =
     griddata findPrev (actuator tb) (airspeed tb) (CmzRudder tb) rudder_pos airspeedV"

text \<open>\<^verbatim>\<open>calculateAerodynamics\<close> returns \<^verbatim>\<open>Faero\<close>, \<^verbatim>\<open>Maero\<close> (its two reference
  parameters) and the state with the stored breakdowns. \<open>coeffs0\<close> is the content of the
  local \<^verbatim>\<open>Eigen::VectorXd polynomialCoeffs(7)\<close>, which the source does not initialise.\<close>

definition calculateAerodynamics ::
    "findPrevRowIdx \<Rightarrow> VtolParameters \<Rightarrow> TablesWithCoeffs \<Rightarrow> VectorXd \<Rightarrow> Vector3d \<Rightarrow> real \<Rightarrow> real
       \<Rightarrow> real \<Rightarrow> real \<Rightarrow> real \<Rightarrow> State \<Rightarrow> Vector3d \<times> Vector3d \<times> State" where
  "calculateAerodynamics findPrev p tb coeffs0 airspeedV AoA_rad AoS_rad
       aileron_pos elevator_pos rudder_pos s =
     (let AoA_deg = clamp (AoA_rad * 180 / 3.1415) (- 45) 45;
          AoS_deg = clamp (AoS_rad * 180 / 3.1415) (- 90) 90;
          airspeedMod = norm3 airspeedV;
          dynamicPressure = calculateDynamicPressure p airspeedMod;
          airspeedModClamped = clamp (norm3 airspeedV) 5 40;

          polynomialCoeffs = coeffs0;
          polynomialCoeffs = calculateCLPolynomial findPrev tb airspeedModClamped polynomialCoeffs;
          CL = polyval polynomialCoeffs AoA_deg;
          FL = smul CL (cross (0, 1, 0) (normalized airspeedV));

          polynomialCoeffs = calculateCSPolynomial findPrev tb airspeedModClamped polynomialCoeffs;
          CS = polyval polynomialCoeffs AoA_deg;
          CS_rudder = calculateCSRudder findPrev tb rudder_pos airspeedModClamped;
          CS_beta = calculateCSBeta findPrev tb AoS_deg airspeedModClamped;
          FS = smul (CS + CS_rudder + CS_beta)
                 (cross airspeedV (cross (0, 1, 0) (normalized airspeedV)));

          polynomialCoeffs = calculateCDPolynomial findPrev tb airspeedModClamped polynomialCoeffs;
          CD = polyval (take 5 polynomialCoeffs) AoA_deg;
          FD = smul CD (normalized (smul (- 1) airspeedV));

          Faero = smul (0.5 * dynamicPressure) (vadd (vadd FL FS) FD);

          polynomialCoeffs = calculateCmxPolynomial findPrev tb airspeedModClamped polynomialCoeffs;
          Cmx = polyval polynomialCoeffs AoA_deg;
          polynomialCoeffs = calculateCmyPolynomial findPrev tb airspeedModClamped polynomialCoeffs;
          Cmy = polyval polynomialCoeffs AoA_deg;
          polynomialCoeffs = calculateCmzPolynomial findPrev tb airspeedModClamped polynomialCoeffs;
          Cmz = - polyval polynomialCoeffs AoA_deg;

          Cmx_aileron = calculateCmxAileron findPrev tb aileron_pos airspeedModClamped;
          Cmy_elevator = calculateCmyElevator findPrev tb \<bar>elevator_pos\<bar> airspeedModClamped;
          Cmz_rudder = calculateCmzRudder findPrev tb rudder_pos airspeedModClamped;

          Mx = Cmx + Cmx_aileron * aileron_pos;
          My = Cmy + Cmy_elevator * elevator_pos;
          Mz = Cmz + Cmz_rudder * rudder_pos;

          Maero = smul (0.5 * dynamicPressure * characteristicLength p) (Mx, My, Mz);

          s = s\<lparr>Flift := smul (0.5 * dynamicPressure * characteristicLength p) FL\<rparr>;
          s = s\<lparr>Fdrug := smul (0.5 * dynamicPressure * characteristicLength p) FD\<rparr>;
          s = s\<lparr>Fside := smul (0.5 * dynamicPressure * characteristicLength p) FS\<rparr>;
          s = s\<lparr>Msteer := (Cmx_aileron * aileron_pos, Cmy_elevator * elevator_pos,
                            Cmz_rudder * rudder_pos)\<rparr>;
          s = s\<lparr>Msteer := smul (0.5 * dynamicPressure * characteristicLength p) (Msteer s)\<rparr>;
          s = s\<lparr>Mairspeed := (Cmx, Cmy, Cmz)\<rparr>;
          s = s\<lparr>Mairspeed := smul (0.5 * dynamicPressure * characteristicLength p) (Mairspeed s)\<rparr>
      in (Faero, Maero, s))"

subsection \<open>Propulsion\<close>

text \<open>\<^verbatim>\<open>thruster\<close> writes its three reference parameters only when the row after the one
  found exists; \<open>out\<close> is what they held before the call (thrust, torque, rpm).\<close>

definition thruster ::
    "findPrevRowIdx \<Rightarrow> TablesWithCoeffs \<Rightarrow> real \<Rightarrow> real \<times> real \<times> real \<Rightarrow> real \<times> real \<times> real" where
  "thruster findPrev tb act out =
     (let CONTROL_IDX = 0; THRUST_IDX = 1; TORQUE_IDX = 2; RPM_IDX = 4;
          prev_idx = findPrev (prop_table tb) act;
          next_idx = prev_idx + 1
      in if next_idx < rows (prop_table tb) then
           let prev_row = prop_table tb ! prev_idx;
               next_row = prop_table tb ! next_idx;
               t = (act - prev_row ! CONTROL_IDX) / (next_row ! CONTROL_IDX - prev_row ! CONTROL_IDX)
           in (lerp (prev_row ! THRUST_IDX) (next_row ! THRUST_IDX) t,
               lerp (prev_row ! TORQUE_IDX) (next_row ! TORQUE_IDX) t,
               lerp (prev_row ! RPM_IDX) (next_row ! RPM_IDX) t)
         else out)"

subsection \<open>Rigid-body integration and ground contact\<close>

definition land :: "VtolParameters \<Rightarrow> State \<Rightarrow> State" where
  "land p s =
     (let s = s\<lparr>Fspecific := (0, 0, - gravity p)\<rparr>;
          s = s\<lparr>linearVel := (0, 0, 0)\<rparr>;
          s = s\<lparr>position := (case position s of (x, y, z) \<Rightarrow> (x, y, 0.00))\<rparr>;
          s = s\<lparr>attitude := initialAttitude s\<rparr>;
          s = s\<lparr>angularVel := (0, 0, 0)\<rparr>;
          s = s\<lparr>motorsRpm := map (\<lambda>_. 0.0) (motorsRpm s)\<rparr>
      in s)"

definition calculateRotationMatrix :: "State \<Rightarrow> Matrix3d" where
  "calculateRotationMatrix s = transpose3 (toRotationMatrix (attitude s))"

definition calculateNormalForceWithoutMass :: "VtolParameters \<Rightarrow> State \<Rightarrow> Vector3d" where
  "calculateNormalForceWithoutMass p s =
     (let rotationMatrix = calculateRotationMatrix s
      in mulMV rotationMatrix (0, 0, - gravity p))"

definition calculateAngularAccel :: "Matrix3d \<Rightarrow> Vector3d \<Rightarrow> Vector3d \<Rightarrow> Vector3d" where
  "calculateAngularAccel inertiaM moment prevAngVel =
     mulMV (inverse3 inertiaM) (vsub moment (cross prevAngVel (mulMV inertiaM prevAngVel)))"

text \<open>The body of the first loop of \<^verbatim>\<open>calculateNewState\<close>, on the local vectors
  \<^verbatim>\<open>thrust\<close> and \<^verbatim>\<open>torque\<close> and the state.\<close>

definition thrusterStep ::
    "findPrevRowIdx \<Rightarrow> TablesWithCoeffs \<Rightarrow> real list \<Rightarrow> nat
       \<Rightarrow> VectorXd \<times> VectorXd \<times> State \<Rightarrow> VectorXd \<times> VectorXd \<times> State" where
  "thrusterStep findPrev tb actuatorV idx tts =
     (case tts of (thrust, torque, s) \<Rightarrow>
        case thruster findPrev tb (actuatorV ! idx)
               (thrust ! idx, torque ! idx, motorsRpm s ! idx) of
          (th, tq, rpm) \<Rightarrow>
            (thrust[idx := th], torque[idx := tq],
             s\<lparr>motorsRpm := (motorsRpm s)[idx := rpm]\<rparr>))"

text \<open>\<^verbatim>\<open>std::accumulate\<close> with the initial value \<^verbatim>\<open>0\<close> of type \<^verbatim>\<open>int\<close>: every partial sum
  is converted back to \<^verbatim>\<open>int\<close>, which drops the fraction.\<close>

definition truncate :: "real \<Rightarrow> int" where
  "truncate y = (if y \<ge> 0 then \<lfloor>y\<rfloor> else \<lceil>y\<rceil>)"

definition accumulateInt :: "real list \<Rightarrow> int" where
  "accumulateInt xs = foldl (\<lambda>init x. truncate (real_of_int init + x)) 0 xs"

text \<open>The part of \<^verbatim>\<open>calculateNewState\<close> before the test of the ground threshold: thrust
  and moments of the motors, angular and linear integration. \<open>thrust0\<close> and \<open>torque0\<close>
  are the contents of the local \<^verbatim>\<open>Eigen::VectorXd thrust(5), torque(5)\<close>, which the
  source does not initialise. The result is the state, the rotation matrix and the
  specific force the rest of the function uses.\<close>

definition integrateState ::
    "findPrevRowIdx \<Rightarrow> VtolParameters \<Rightarrow> TablesWithCoeffs \<Rightarrow> VectorXd \<Rightarrow> VectorXd
       \<Rightarrow> Vector3d \<Rightarrow> Vector3d \<Rightarrow> real list \<Rightarrow> real \<Rightarrow> State \<Rightarrow> State \<times> Matrix3d \<times> Vector3d" where
  "integrateState findPrev p tb thrust0 torque0 MaeroV FaeroV actuatorV dt_sec s =
     (case fold (thrusterStep findPrev tb actuatorV) [0..<5] (thrust0, torque0, s) of
        (thrust, torque, s) \<Rightarrow>
     let s = fold (\<lambda>idx s. s\<lparr>Fmotors := (Fmotors s)[idx := (0, 0, - thrust ! idx)]\<rparr>) [0..<4] s;
         s = s\<lparr>Fmotors := (Fmotors s)[4 := (thrust ! 4, 0, 0)]\<rparr>;

         motorTorquesInBodyCS =
           [(0, 0, torque ! 0), (0, 0, torque ! 1), (0, 0, - torque ! 2), (0, 0, - torque ! 3),
            (- torque ! 4, 0, 0)];
         s = fold (\<lambda>idx s.
                     let MdueToArmOfForceInBodyCS =
                           cross (propellersLocation p ! idx) (Fmotors s ! idx)
                     in s\<lparr>Mmotors := (Mmotors s)[idx :=
                            vadd (motorTorquesInBodyCS ! idx) MdueToArmOfForceInBodyCS]\<rparr>)
                  [0..<5] s;

         MtotalInBodyCS = foldl vadd MaeroV (take 5 (Mmotors s));
         s = s\<lparr>angularAccel := calculateAngularAccel (inertia p) MtotalInBodyCS (angularVel s)\<rparr>;
         s = s\<lparr>angularVel := vadd (angularVel s) (smul dt_sec (angularAccel s))\<rparr>;
         quaternion = (case angularVel s of (w0, w1, w2) \<Rightarrow> (0, w0, w1, w2));
         attitudeDelta = qmul (attitude s) quaternion;
         s = s\<lparr>attitude := qadd (attitude s) (qscale (qscale attitudeDelta 0.5) dt_sec)\<rparr>;
         s = s\<lparr>attitude := qnormalize (attitude s)\<rparr>;

         rotationMatrix = calculateRotationMatrix s;
         Fspecific' = sdiv (foldl vadd FaeroV (take 5 (Fmotors s))) (mass p);
         Ftotal' = smul (mass p) (vadd Fspecific' (mulMV rotationMatrix (0, 0, gravity p)));

         s = s\<lparr>Ftotal := Ftotal'\<rparr>;
         s = s\<lparr>Mtotal := MtotalInBodyCS\<rparr>;

         s = s\<lparr>linearAccel := sdiv (mulMV (inverse3 rotationMatrix) Ftotal') (mass p)\<rparr>;
         s = s\<lparr>linearVel := vadd (linearVel s) (smul dt_sec (linearAccel s))\<rparr>;
         s = s\<lparr>position := vadd (position s) (smul dt_sec (linearVel s))\<rparr>
     in (s, rotationMatrix, Fspecific'))"

definition calculateNewState ::
    "findPrevRowIdx \<Rightarrow> VtolParameters \<Rightarrow> TablesWithCoeffs \<Rightarrow> VectorXd \<Rightarrow> VectorXd
       \<Rightarrow> Vector3d \<Rightarrow> Vector3d \<Rightarrow> real list \<Rightarrow> real \<Rightarrow> State \<Rightarrow> State" where
  "calculateNewState findPrev p tb thrust0 torque0 MaeroV FaeroV actuatorV dt_sec s =
     (case integrateState findPrev p tb thrust0 torque0 MaeroV FaeroV actuatorV dt_sec s of
        (s, rotationMatrix, Fspecific') \<Rightarrow>
     let s = (if vz (position s) \<ge> 0 then land p s else s\<lparr>Fspecific := Fspecific'\<rparr>);
         flat = concat (map (\<lambda>(m0, m1, m2). [m0, m1, m2]) (take 5 (Mmotors s)));
         s = s\<lparr>MmotorsTotal := (real_of_int (accumulateInt flat), real_of_int (accumulateInt flat),
                                  real_of_int (accumulateInt flat))\<rparr>;
         s = s\<lparr>bodylinearVel := mulMV rotationMatrix (linearVel s)\<rparr>
     in s)"

subsection \<open>Calibration\<close>

text \<open>\<^verbatim>\<open>calibrate\<close> returns 1 and the state. The static \<^verbatim>\<open>prevCalibrationType\<close> is a byte
  compared with the mode; two modes are equal exactly when their bytes are. The throttled
  warnings are not part of the model.\<close>

definition MAG_ROTATION_SPEED :: real where
  "MAG_ROTATION_SPEED = 2 * 3.1415 / 10"

definition DELTA_TIME :: real where
  "DELTA_TIME = 0.001"

definition calibrate :: "VtolParameters \<Rightarrow> CalibrationType_t \<Rightarrow> State \<Rightarrow> int \<times> State" where
  "calibrate p calType s =
     (let s = s\<lparr>linearVel := (0, 0, 0)\<rparr>;
          s = s\<lparr>position := (case position s of (x, y, z) \<Rightarrow> (x, y, 0.00))\<rparr>;
          entered = (prevCalibrationType s \<noteq> calType);
          s = (case calType of
                 WORK_MODE \<Rightarrow> s\<lparr>attitude := (1, 0, 0, 0), angularVel := (0, 0, 0)\<rparr>
               | MAG_1_NORMAL \<Rightarrow>
                   (if entered then s\<lparr>attitude := (1, 0, 0, 0)\<rparr> else s)
                     \<lparr>angularVel := (0.000, 0.000, - MAG_ROTATION_SPEED)\<rparr>
               | MAG_2_OVERTURNED \<Rightarrow>
                   (if entered then s\<lparr>attitude := (0, 1, 0, 0)\<rparr> else s)
                     \<lparr>angularVel := (0.000, 0.000, MAG_ROTATION_SPEED)\<rparr>
               | MAG_3_HEAD_DOWN \<Rightarrow>
                   (if entered then s\<lparr>attitude := (0.707, 0, - 0.707, 0)\<rparr> else s)
                     \<lparr>angularVel := (- MAG_ROTATION_SPEED, 0.000, 0.000)\<rparr>
               | MAG_4_HEAD_UP \<Rightarrow>
                   (if entered then s\<lparr>attitude := (0.707, 0, 0.707, 0)\<rparr> else s)
                     \<lparr>angularVel := (MAG_ROTATION_SPEED, 0.000, 0.000)\<rparr>
               | MAG_5_TURNED_LEFT \<Rightarrow>
                   (if entered then s\<lparr>attitude := (0.707, - 0.707, 0, 0)\<rparr> else s)
                     \<lparr>angularVel := (0.000, MAG_ROTATION_SPEED, 0.000)\<rparr>
               | MAG_6_TURNED_RIGHT \<Rightarrow>
                   (if entered then s\<lparr>attitude := (0.707, 0.707, 0, 0)\<rparr> else s)
                     \<lparr>angularVel := (0.000, - MAG_ROTATION_SPEED, 0.000)\<rparr>
               | MAG_7_ARDUPILOT \<Rightarrow>
                   s\<lparr>angularVel := (MAG_ROTATION_SPEED, MAG_ROTATION_SPEED, MAG_ROTATION_SPEED)\<rparr>
               | MAG_8_ARDUPILOT \<Rightarrow>
                   s\<lparr>angularVel := (- MAG_ROTATION_SPEED, MAG_ROTATION_SPEED, MAG_ROTATION_SPEED)\<rparr>
               | MAG_9_ARDUPILOT \<Rightarrow>
                   s\<lparr>angularVel := (MAG_ROTATION_SPEED, - MAG_ROTATION_SPEED, MAG_ROTATION_SPEED)\<rparr>
               | ACC_1_NORMAL \<Rightarrow>
                   (if entered then s\<lparr>attitude := (1, 0, 0, 0)\<rparr> else s)
                     \<lparr>angularVel := (0, 0, 0)\<rparr>
               | ACC_2_OVERTURNED \<Rightarrow>
                   (if entered then s\<lparr>attitude := (0, 1, 0, 0)\<rparr> else s)
                     \<lparr>angularVel := (0, 0, 0)\<rparr>
               | ACC_3_HEAD_DOWN \<Rightarrow>
                   (if entered then s\<lparr>attitude := (0.707, 0, - 0.707, 0)\<rparr> else s)
                     \<lparr>angularVel := (0, 0, 0)\<rparr>
               | ACC_4_HEAD_UP \<Rightarrow>
                   (if entered then s\<lparr>attitude := (0.707, 0, 0.707, 0)\<rparr> else s)
                     \<lparr>angularVel := (0, 0, 0)\<rparr>
               | ACC_5_TURNED_LEFT \<Rightarrow>
                   (if entered then s\<lparr>attitude := (0.707, - 0.707, 0, 0)\<rparr> else s)
                     \<lparr>angularVel := (0, 0, 0)\<rparr>
               | ACC_6_TURNED_RIGHT \<Rightarrow>
                   (if entered then s\<lparr>attitude := (0.707, 0.707, 0, 0)\<rparr> else s)
                     \<lparr>angularVel := (0, 0, 0)\<rparr>
               | AIRSPEED \<Rightarrow>
                   (let s = s\<lparr>attitude := (1, 0, 0, 0)\<rparr>;
                        s = s\<lparr>angularVel := (0, 0, 0)\<rparr>
                    in s\<lparr>linearVel := (case linearVel s of (v0, v1, v2) \<Rightarrow> (10.0, 10.0, v2))\<rparr>)
               | UNLISTED n \<Rightarrow> s);
          s = (if entered then s\<lparr>prevCalibrationType := calType\<rparr> else s);
          s = s\<lparr>Fspecific := calculateNormalForceWithoutMass p s\<rparr>;
          quaternion = (case angularVel s of (w0, w1, w2) \<Rightarrow> (0, w0, w1, w2));
          attitudeDelta = qmul (attitude s) quaternion;
          s = s\<lparr>attitude := qadd (attitude s) (qscale (qscale attitudeDelta 0.5) DELTA_TIME)\<rparr>;
          s = s\<lparr>attitude := qnormalize (attitude s)\<rparr>
      in (1, s))"

text \<open>The attitude update that \<^verbatim>\<open>calculateNewState\<close> and \<^verbatim>\<open>calibrate\<close> share: one
  first-order step from the attitude \<open>q\<close> with the angular velocity \<open>w\<close> over the time
  \<open>dt\<close>, then the normalisation.\<close>

definition attitudeStep :: "Quaterniond \<Rightarrow> Vector3d \<Rightarrow> real \<Rightarrow> Quaterniond" where
  "attitudeStep q w dt =
     qnormalize (qadd q (qscale (qscale (qmul q (case w of (w0, w1, w2) \<Rightarrow> (0, w0, w1, w2))) 0.5)
                          dt))"

text \<open>The quaternion a case of \<^verbatim>\<open>calibrate\<close> assigns, for the modes whose case assigns
  one.\<close>

definition fixedAttitude :: "CalibrationType_t \<Rightarrow> Quaterniond option" where
  "fixedAttitude calType =
     (if calType \<in> {WORK_MODE, MAG_1_NORMAL, ACC_1_NORMAL, AIRSPEED} then Some (1, 0, 0, 0)
      else if calType \<in> {MAG_2_OVERTURNED, ACC_2_OVERTURNED} then Some (0, 1, 0, 0)
      else if calType \<in> {MAG_3_HEAD_DOWN, ACC_3_HEAD_DOWN} then Some (0.707, 0, - 0.707, 0)
      else if calType \<in> {MAG_4_HEAD_UP, ACC_4_HEAD_UP} then Some (0.707, 0, 0.707, 0)
      else if calType \<in> {MAG_5_TURNED_LEFT, ACC_5_TURNED_LEFT} then Some (0.707, - 0.707, 0, 0)
      else if calType \<in> {MAG_6_TURNED_RIGHT, ACC_6_TURNED_RIGHT} then Some (0.707, 0.707, 0, 0)
      else None)"

text \<open>The modes whose case assigns the quaternion under the test
  \<^verbatim>\<open>prevCalibrationType != calType\<close>.\<close>

definition assignsOnEntry :: "CalibrationType_t \<Rightarrow> bool" where
  "assignsOnEntry calType \<longleftrightarrow>
     calType \<in> {MAG_1_NORMAL, MAG_2_OVERTURNED, MAG_3_HEAD_DOWN, MAG_4_HEAD_UP,
                 MAG_5_TURNED_LEFT, MAG_6_TURNED_RIGHT,
                 ACC_1_NORMAL, ACC_2_OVERTURNED, ACC_3_HEAD_DOWN, ACC_4_HEAD_UP,
                 ACC_5_TURNED_LEFT, ACC_6_TURNED_RIGHT}"

subsection \<open>Runs of the integrator\<close>

text \<open>What one call of \<^verbatim>\<open>calculateNewState\<close> receives: the contents of its two
  uninitialised locals, the aerodynamic moment and force, the actuators and the step.\<close>

type_synonym tick = "VectorXd \<times> VectorXd \<times> Vector3d \<times> Vector3d \<times> real list \<times> real"

text \<open>One call of \<^verbatim>\<open>calculateNewState\<close> per tick, in order.\<close>

fun ticks :: "findPrevRowIdx \<Rightarrow> VtolParameters \<Rightarrow> TablesWithCoeffs \<Rightarrow> State \<Rightarrow> tick list \<Rightarrow> State" where
  "ticks findPrev p tb s [] = s"
| "ticks findPrev p tb s (t # ts) =
     ticks findPrev p tb
       (case t of (thrust0, torque0, MaeroV, FaeroV, actuatorV, dt_sec) \<Rightarrow>
          calculateNewState findPrev p tb thrust0 torque0 MaeroV FaeroV actuatorV dt_sec s) ts"

text \<open>A tick with zero-thrust input: \<^verbatim>\<open>thruster\<close> gives thrust 0 for each of the five
  motors. (What \<^verbatim>\<open>thruster\<close> leaves in \<^verbatim>\<open>thrust\<close> does not depend on the torque and the
  rpm it was given.) The aerodynamic force and moment of the tick are left open.\<close>

definition zeroThrust :: "findPrevRowIdx \<Rightarrow> TablesWithCoeffs \<Rightarrow> tick \<Rightarrow> bool" where
  "zeroThrust findPrev tb t =
     (case t of (thrust0, torque0, MaeroV, FaeroV, actuatorV, dt_sec) \<Rightarrow>
        length thrust0 = 5 \<and> length torque0 = 5 \<and> length actuatorV = 8 \<and>
        (\<forall>idx \<in> set [0..<5].
           fst (thruster findPrev tb (actuatorV ! idx) (thrust0 ! idx, 0, 0)) = 0))"

text \<open>A tick in which no aerodynamic force acts.\<close>

definition noAeroForce :: "tick \<Rightarrow> bool" where
  "noAeroForce t =
     (case t of (thrust0, torque0, MaeroV, FaeroV, actuatorV, dt_sec) \<Rightarrow> FaeroV = (0, 0, 0))"

text \<open>The fixed-size members of the state have their five, respectively eight, entries.\<close>

definition sized :: "State \<Rightarrow> bool" where
  "sized s \<longleftrightarrow>
     length (Fmotors s) = 5 \<and> length (Mmotors s) = 5 \<and> length (motorsRpm s) = 5 \<and>
     length (prevActuators s) = 8 \<and> length (crntActuators s) = 8"

subsection \<open>Example data\<close>

text \<open>Parameters, tables and a state for the examples below: a vehicle at rest at the
  origin, level, as the constructor and \<^verbatim>\<open>setInitialPosition\<close> leave it.\<close>

definition exampleParams :: VtolParameters where
  "exampleParams =
     \<lparr>mass = 7, gravity = 9.8066, atmoRho = 1.225, wingArea = 1, characteristicLength = 1.5,
      propellersLocation = [(1, 1, 0), (- 1, - 1, 0), (1, - 1, 0), (- 1, 1, 0), (- 1, 0, 0)],
      actuatorMin = [0, 0, 0, 0, 0, - 1, - 1, - 1],
      actuatorMax = [1, 1, 1, 1, 1, 1, 1, 1],
      inertia = ((1, 0, 0), (0, 1, 0), (0, 0, 1)),
      accVariance = 0, gyroVariance = 0\<rparr>"

definition exampleTables :: TablesWithCoeffs where
  "exampleTables =
     \<lparr>CS_rudder = [[0, 0], [0, 0]], CS_beta = [[0, 0], [0, 0]],
      AoA = [[0, 1]], AoS = [[0], [1]], actuator = [[0], [1]], airspeed = [[5], [40]],
      CLPolynomial = [[5, 0, 1], [40, 1, 2]], CSPolynomial = [[5, 0, 1], [40, 1, 2]],
      CDPolynomial = [[5, 0, 1], [40, 1, 2]], CmxPolynomial = [[5, 0, 1], [40, 1, 2]],
      CmyPolynomial = [[5, 0, 1], [40, 1, 2]], CmzPolynomial = [[5, 0, 1], [40, 1, 2]],
      CmxAileron = [[0, 0], [0, 0]], CmyElevator = [[0, 0], [0, 0]],
      CmzRudder = [[0, 0], [0, 0]],
      prop_table = [[0, 0, 0, 0, 0], [1000, 30, 1, 40, 5000]],
      actuatorTimeConstants = [1, 1, 1, 1, 1, 1, 1, 1]\<rparr>"

definition restState :: State where
  "restState =
     \<lparr>position = (0, 0, 0), attitude = (1, 0, 0, 0),
      linearVel = (0, 0, 0), angularVel = (0, 0, 0),
      linearAccel = (0, 0, 0), angularAccel = (0, 0, 0),
      initialPose = (0, 0, 0), initialAttitude = (1, 0, 0, 0),
      Fspecific = (0, 0, - 9.8066), Faero = (0, 0, 0), Maero = (0, 0, 0),
      Ftotal = (0, 0, 0), Mtotal = (0, 0, 0),
      Flift = (0, 0, 0), Fdrug = (0, 0, 0), Fside = (0, 0, 0),
      Msteer = (0, 0, 0), Mairspeed = (0, 0, 0), MmotorsTotal = (0, 0, 0),
      bodylinearVel = (0, 0, 0),
      Fmotors = [(0, 0, 0), (0, 0, 0), (0, 0, 0), (0, 0, 0), (0, 0, 0)],
      Mmotors = [(0, 0, 0), (0, 0, 0), (0, 0, 0), (0, 0, 0), (0, 0, 0)],
      motorsRpm = [0, 0, 0, 0, 0],
      prevActuators = [0, 0, 0, 0, 0, 0, 0, 0],
      crntActuators = [0, 0, 0, 0, 0, 0, 0, 0],
      windVelocity = (0, 0, 0), windVariance = 0,
      accelBias = (0, 0, 0), gyroBias = (0, 0, 0),
      prevCalibrationType = WORK_MODE\<rparr>"

text \<open>A state just above the ground, descending and rolling, with the rotors turning.\<close>

definition descendingState :: State where
  "descendingState =
     restState\<lparr>position := (0, 0, - 0.001), linearVel := (1, 0, 2),
               angularVel := (0.1, 0, 0), motorsRpm := [900, 900, 900, 900, 0]\<rparr>"

text \<open>A state ten metres above the ground.\<close>

definition airborneState :: State where
  "airborneState = restState\<lparr>position := (0, 0, - 10)\<rparr>"

text \<open>The state of the test \<^verbatim>\<open>calculateNewStateFirstCaseOnlyAttitude\<close>: at the origin, with
  the initial attitude \<^verbatim>\<open>Eigen::Quaterniond(1, 0.2, 0.10, 0.05)\<close>.\<close>

definition tiltedState :: State where
  "tiltedState =
     restState\<lparr>attitude := (1, 0.2, 0.10, 0.05), initialAttitude := (1, 0.2, 0.10, 0.05)\<rparr>"

text \<open>A tick of 2.5 ms with all actuators at zero and no aerodynamic force or moment; a
  search that always returns the first row of a table.\<close>

definition idleTick :: tick where
  "idleTick = ([0, 0, 0, 0, 0], [0, 0, 0, 0, 0], (0, 0, 0), (0, 0, 0),
               [0, 0, 0, 0, 0, 0, 0, 0], 0.0025)"

text \<open>The same tick with an aerodynamic force of 1000 N upwards (the vertical axis
  points down).\<close>

definition liftTick :: tick where
  "liftTick = ([0, 0, 0, 0, 0], [0, 0, 0, 0, 0], (0, 0, 0), (0, 0, - 1000),
               [0, 0, 0, 0, 0, 0, 0, 0], 0.0025)"

definition firstRow :: findPrevRowIdx where
  "firstRow table key = 0"

section \<open>Properties\<close>

subsection \<open>Evaluating the loops\<close>

lemma upt_0_5: "[0..<5] = [0, 1, 2, 3, 4]"
  by (simp add: upt_rec)

lemma upt_5_8: "[5..<8] = [5, 6, 7]"
  by (simp add: upt_rec)

subsection \<open>Actuator mixers\<close>

lemma scaleThrottle_other: "j \<noteq> idx \<Longrightarrow> scaleThrottle p idx a ! j = a ! j"
  by (simp add: scaleThrottle_def Let_def)

lemma scaleSurface_other: "j \<noteq> idx \<Longrightarrow> scaleSurface p idx a ! j = a ! j"
  by (simp add: scaleSurface_def Let_def)

lemma length_scaleThrottle: "length (scaleThrottle p idx a) = length a"
  by (simp add: scaleThrottle_def Let_def)

lemma length_scaleSurface: "length (scaleSurface p idx a) = length a"
  by (simp add: scaleSurface_def Let_def)

lemma scaleSurface_zero: "idx < length a \<Longrightarrow> a ! idx = 0 \<Longrightarrow> scaleSurface p idx a ! idx = 0"
  by (simp add: scaleSurface_def Let_def clamp_def)

text \<open>
  C7. A command vector whose length is not 8 comes back from both mixers as it went in,
  together with the line that reports the wrong size.
\<close>

theorem mixers_pass_wrong_size:
  assumes "length cmd \<noteq> 8"
  shows "mapCmdToActuatorStandardVTOL p cmd = ([WrongControlSize (length cmd)], cmd) \<and>
         mapCmdToActuatorInnoVTOL p cmd = ([WrongControlSize (length cmd)], cmd)"
  using assms by (simp add: mapCmdToActuatorStandardVTOL_def mapCmdToActuatorInnoVTOL_def)

theorem mixers_pass_wrong_size_witness:
  "length [0.5, 0.25, 2 :: real] \<noteq> 8 \<and>
   mapCmdToActuatorStandardVTOL exampleParams [0.5, 0.25, 2]
     = ([WrongControlSize 3], [0.5, 0.25, 2]) \<and>
   mapCmdToActuatorInnoVTOL exampleParams [0.5, 0.25, 2]
     = ([WrongControlSize 3], [0.5, 0.25, 2])"
  using mixers_pass_wrong_size [of "[0.5, 0.25, 2]" exampleParams] by simp

text \<open>
  C10. For a command vector of length 8 (and the eight minima and maxima of the
  parameters), the rudder channel, index 7, of what the StandardVTOL mixer returns is 0.
\<close>

theorem standard_mixer_rudder_zero:
  assumes "length cmd = 8" and "length (actuatorMax p) = 8" and "length (actuatorMin p) = 8"
  shows "snd (mapCmdToActuatorStandardVTOL p cmd) ! 7 = 0"
proof -
  let ?a = "[cmd ! 0, cmd ! 1, cmd ! 2, cmd ! 3, cmd ! 4, (cmd ! 5 - cmd ! 6) / 2, - cmd ! 7, 0]"
  let ?b = "fold (scaleThrottle p) [0..<5] ?a"
  let ?c = "scaleSurface p 6 (scaleSurface p 5 ?b)"
  have b: "?b ! 7 = 0" "length ?b = 8"
    by (simp_all add: upt_0_5 scaleThrottle_other length_scaleThrottle)
  have c: "?c ! 7 = 0" "7 < length ?c"
    using b by (simp_all add: scaleSurface_other length_scaleSurface)
  have "scaleSurface p 7 ?c ! 7 = 0"
    by (rule scaleSurface_zero [OF c(2) c(1)])
  then show ?thesis
    using assms by (simp add: mapCmdToActuatorStandardVTOL_def upt_5_8 Let_def)
qed

theorem standard_mixer_rudder_zero_witness:
  "length [0.5, 0.5, 0.5, 0.5, 1, 1, - 1, 0.75 :: real] = 8 \<and>
   length (actuatorMax exampleParams) = 8 \<and> length (actuatorMin exampleParams) = 8 \<and>
   snd (mapCmdToActuatorStandardVTOL exampleParams [0.5, 0.5, 0.5, 0.5, 1, 1, - 1, 0.75]) ! 7 = 0"
  using standard_mixer_rudder_zero [of "[0.5, 0.5, 0.5, 0.5, 1, 1, - 1, 0.75]" exampleParams]
  by (simp add: exampleParams_def)

subsection \<open>Accessors\<close>

text \<open>
  C9. \<^verbatim>\<open>getMotorsRpm\<close> returns true and the vector it was given followed by the five rpm
  values of the state, in the order of their indices: five elements longer, the elements
  it held before unchanged.
\<close>

theorem getMotorsRpm_appends:
  assumes "length (motorsRpm s) = 5"
  shows "getMotorsRpm s v = (True, v @ motorsRpm s) \<and>
         length (snd (getMotorsRpm s v)) = length v + 5 \<and>
         take (length v) (snd (getMotorsRpm s v)) = v \<and>
         (\<forall>i \<in> set [0..<5]. snd (getMotorsRpm s v) ! (length v + i) = motorsRpm s ! i)"
proof -
  have "[motorsRpm s ! 0, motorsRpm s ! 1, motorsRpm s ! 2, motorsRpm s ! 3, motorsRpm s ! 4]
          = motorsRpm s"
    using assms by (intro nth_equalityI) (auto simp: less_Suc_eq eval_nat_numeral)
  then have "getMotorsRpm s v = (True, v @ motorsRpm s)"
    by (simp add: getMotorsRpm_def)
  then show ?thesis
    using assms by simp
qed

theorem getMotorsRpm_appends_witness:
  "length (motorsRpm (restState\<lparr>motorsRpm := [10, 20, 30, 40, 50]\<rparr>)) = 5 \<and>
   getMotorsRpm (restState\<lparr>motorsRpm := [10, 20, 30, 40, 50]\<rparr>) [7, 8]
     = (True, [7, 8, 10, 20, 30, 40, 50])"
  using getMotorsRpm_appends [of "restState\<lparr>motorsRpm := [10, 20, 30, 40, 50]\<rparr>" "[7, 8]"]
  by simp

subsection \<open>Actuator lag\<close>

lemma fold_updateActuator_prev:
  "prevActuators (snd (fold (updateActuator tb dt) ids cs)) = prevActuators (snd cs)"
  by (induction ids arbitrary: cs) (simp_all add: updateActuator_def Let_def)

text \<open>What the loop leaves at index \<open>i\<close>, for any list of distinct indices in range.\<close>

lemma fold_updateActuator_nth:
  "distinct ids \<Longrightarrow>
   \<forall>j \<in> set ids. j < length (fst cs) \<and> j < length (crntActuators (snd cs)) \<Longrightarrow>
   fst (fold (updateActuator tb dt) ids cs) ! i =
     (if i \<in> set ids
      then fst cs ! i + (prevActuators (snd cs) ! i - fst cs ! i) *
             (1 - 2.71 powr (- dt / actuatorTimeConstants tb ! i))
      else fst cs ! i) \<and>
   crntActuators (snd (fold (updateActuator tb dt) ids cs)) ! i =
     (if i \<in> set ids
      then fst cs ! i + (prevActuators (snd cs) ! i - fst cs ! i) *
             (1 - 2.71 powr (- dt / actuatorTimeConstants tb ! i))
      else crntActuators (snd cs) ! i)"
proof (induction ids arbitrary: cs)
  case Nil
  then show ?case by simp
next
  case (Cons a ids)
  let ?cs = "updateActuator tb dt a cs"
  have len: "length (fst ?cs) = length (fst cs)"
    "length (crntActuators (snd ?cs)) = length (crntActuators (snd cs))"
    "prevActuators (snd ?cs) = prevActuators (snd cs)"
    by (simp_all add: updateActuator_def Let_def)
  have a: "a < length (fst cs)" "a < length (crntActuators (snd cs))" "a \<notin> set ids"
    "distinct ids"
    using Cons.prems by auto
  have step:
    "fst ?cs ! i =
       (if i = a then fst cs ! i + (prevActuators (snd cs) ! i - fst cs ! i) *
                        (1 - 2.71 powr (- dt / actuatorTimeConstants tb ! i))
        else fst cs ! i)"
    "crntActuators (snd ?cs) ! i =
       (if i = a then fst cs ! i + (prevActuators (snd cs) ! i - fst cs ! i) *
                        (1 - 2.71 powr (- dt / actuatorTimeConstants tb ! i))
        else crntActuators (snd cs) ! i)"
    using a by (simp_all add: updateActuator_def Let_def nth_list_update)
  have pre: "\<forall>j \<in> set ids. j < length (fst ?cs) \<and> j < length (crntActuators (snd ?cs))"
    using Cons.prems len by simp
  show ?case
    using Cons.IH [OF a(4) pre] a(3) step len by auto
qed

text \<open>A squaring chain for a lower bound of Euler's number.\<close>

lemma sq_lower: "(0::real) \<le> b \<Longrightarrow> b \<le> a \<Longrightarrow> c \<le> b * b \<Longrightarrow> c \<le> a ^ 2"
  by (metis mult_mono order_trans power2_eq_square)

lemma exp_1_gt_271: "exp (1::real) > 271 / 100"
proof -
  let ?x = "513 / 512 :: real"
  have h1: "100391 / 100000 \<le> ?x ^ 2" by (simp add: power2_eq_square)
  have h2: "629897 / 625000 \<le> (?x ^ 2) ^ 2" by (rule sq_lower [OF _ h1]) simp_all
  have h3: "10157317 / 10000000 \<le> ((?x ^ 2) ^ 2) ^ 2" by (rule sq_lower [OF _ h2]) simp_all
  have h4: "2579277 / 2500000 \<le> (((?x ^ 2) ^ 2) ^ 2) ^ 2"
    by (rule sq_lower [OF _ h3]) simp_all
  have h5: "10644271 / 10000000 \<le> ((((?x ^ 2) ^ 2) ^ 2) ^ 2) ^ 2"
    by (rule sq_lower [OF _ h4]) simp_all
  have h6: "226601 / 200000 \<le> (((((?x ^ 2) ^ 2) ^ 2) ^ 2) ^ 2) ^ 2"
    by (rule sq_lower [OF _ h5]) simp_all
  have h7: "12837003 / 10000000 \<le> ((((((?x ^ 2) ^ 2) ^ 2) ^ 2) ^ 2) ^ 2) ^ 2"
    by (rule sq_lower [OF _ h6]) simp_all
  have h8: "1029929 / 625000 \<le> (((((((?x ^ 2) ^ 2) ^ 2) ^ 2) ^ 2) ^ 2) ^ 2) ^ 2"
    by (rule sq_lower [OF _ h7]) simp_all
  have h9: "5431059 / 2000000 \<le> ((((((((?x ^ 2) ^ 2) ^ 2) ^ 2) ^ 2) ^ 2) ^ 2) ^ 2) ^ 2"
    by (rule sq_lower [OF _ h8]) simp_all
  have "((((((((?x ^ 2) ^ 2) ^ 2) ^ 2) ^ 2) ^ 2) ^ 2) ^ 2) ^ 2 = ?x ^ (2*2*2*2*2*2*2*2*2)"
    by (simp only: power_mult)
  then have pw: "5431059 / 2000000 \<le> ?x ^ 512" using h9 by simp
  have "(1 + 1 / real 512) ^ 512 \<le> exp (1 :: real)"
    by (rule exp_ge_one_plus_x_over_n_power_n) simp_all
  then have "?x ^ 512 \<le> exp 1" by simp
  with pw show ?thesis by linarith
qed

text \<open>
  C1, as the code has it. For a command vector and a stored current vector of eight
  channels, a channel \<open>i\<close>, a step \<open>dt > 0\<close> and a time constant \<open>\<tau>\<^sub>i > 0\<close>: with \<open>t\<close> the
  raw target and \<open>p\<close> the filtered value that was current before the call, the call leaves
  \<open>t + (p - t) * (1 - 2.71 powr (- dt / \<tau>\<^sub>i))\<close> in the command vector and in the current
  vector, the gap being previous minus target; the base of the power is the literal 2.71
  of the source, not Euler's number. The stored previous vector is the vector that was
  current before the call.
\<close>

theorem updateActuators_lag:
  assumes "length cmd = 8" and "length (crntActuators s) = 8"
    and "length (actuatorTimeConstants tb) = 8"
    and "i < 8" and "0 < dt" and "0 < actuatorTimeConstants tb ! i"
  shows "fst (updateActuators tb cmd dt s) ! i =
           cmd ! i + (crntActuators s ! i - cmd ! i) *
             (1 - 2.71 powr (- dt / actuatorTimeConstants tb ! i)) \<and>
         crntActuators (snd (updateActuators tb cmd dt s)) ! i =
           fst (updateActuators tb cmd dt s) ! i \<and>
         prevActuators (snd (updateActuators tb cmd dt s)) = crntActuators s"
  using assms
    fold_updateActuator_nth [of "[0..<8]" "(cmd, s\<lparr>prevActuators := crntActuators s\<rparr>)" tb dt i]
  by (simp add: updateActuators_def fold_updateActuator_prev)

theorem updateActuators_lag_witness:
  "length [0, 0, 0, 0, 0, 0, 0, 0 :: real] = 8 \<and>
   length (crntActuators (restState\<lparr>crntActuators := [1, 0, 0, 0, 0, 0, 0, 0]\<rparr>)) = 8 \<and>
   length (actuatorTimeConstants exampleTables) = 8 \<and>
   (0 :: nat) < 8 \<and> (0 :: real) < 1 \<and> 0 < actuatorTimeConstants exampleTables ! 0 \<and>
   fst (updateActuators exampleTables [0, 0, 0, 0, 0, 0, 0, 0] 1
          (restState\<lparr>crntActuators := [1, 0, 0, 0, 0, 0, 0, 0]\<rparr>)) ! 0 = 171 / 271"
  using updateActuators_lag [of "[0, 0, 0, 0, 0, 0, 0, 0]"
      "restState\<lparr>crntActuators := [1, 0, 0, 0, 0, 0, 0, 0]\<rparr>" exampleTables 0 1]
  by (simp add: exampleTables_def powr_minus_divide)

text \<open>The claim as the spec words it, with Euler's number as the base, fails: from the
  stored value 1 towards the target 0 with \<open>dt = \<tau> = 1\<close>, the source yields
  \<open>1 - 1 / 2.71\<close>, not \<open>1 - exp (- 1)\<close>.\<close>

theorem updateActuators_lag_counterexample:
  "fst (updateActuators exampleTables [0, 0, 0, 0, 0, 0, 0, 0] 1
          (restState\<lparr>crntActuators := [1, 0, 0, 0, 0, 0, 0, 0]\<rparr>)) ! 0
     \<noteq> 0 + (1 - 0) * (1 - exp (- 1 / 1))"
proof -
  have "fst (updateActuators exampleTables [0, 0, 0, 0, 0, 0, 0, 0] 1
          (restState\<lparr>crntActuators := [1, 0, 0, 0, 0, 0, 0, 0]\<rparr>)) ! 0 = 171 / 271"
    using fold_updateActuator_nth [of "[0..<8]"
        "([0, 0, 0, 0, 0, 0, 0, 0],
          restState\<lparr>crntActuators := [1, 0, 0, 0, 0, 0, 0, 0],
                     prevActuators := [1, 0, 0, 0, 0, 0, 0, 0]\<rparr>)" exampleTables 1 0]
    by (simp add: updateActuators_def exampleTables_def powr_minus_divide)
  moreover have "exp (- 1 :: real) < 100 / 271"
    using exp_1_gt_271 by (simp add: exp_minus field_simps)
  ultimately show ?thesis by simp
qed

subsection \<open>Dynamic pressure\<close>

text \<open>
  C5, as the code has it. \<^verbatim>\<open>calculateDynamicPressure\<close> returns air density times the square
  of the airspeed times the wing area, without the factor one half: twice the value the
  spec names.
\<close>

theorem calculateDynamicPressure_value:
  "calculateDynamicPressure p V = atmoRho p * V\<^sup>2 * wingArea p \<and>
   calculateDynamicPressure p V = 2 * (0.5 * atmoRho p * V\<^sup>2 * wingArea p)"
  by (simp add: calculateDynamicPressure_def power2_eq_square)

text \<open>With the factor one half the claim fails at airspeed 10.\<close>

theorem calculateDynamicPressure_counterexample:
  "calculateDynamicPressure exampleParams 10
     \<noteq> 0.5 * atmoRho exampleParams * 10\<^sup>2 * wingArea exampleParams"
  by (simp add: calculateDynamicPressure_def exampleParams_def)

subsection \<open>Coefficient tables\<close>

lemma fold_list_update_upt:
  "n \<le> length cs \<Longrightarrow>
   fold (\<lambda>i c. c[i := f i]) [0..<n] cs = map (\<lambda>i. if i < n then f i else cs ! i) [0..<length cs]"
proof (induction n)
  case 0
  then show ?case by (simp add: map_nth)
next
  case (Suc n)
  then have "fold (\<lambda>i c. c[i := f i]) [0..<Suc n] cs =
      (map (\<lambda>i. if i < n then f i else cs ! i) [0..<length cs])[n := f n]"
    by simp
  also have "\<dots> = map (\<lambda>i. if i < Suc n then f i else cs ! i) [0..<length cs]"
    using Suc.prems by (intro nth_equalityI) (auto simp: nth_list_update)
  finally show ?case .
qed

text \<open>
  C4, as the code has it. \<^verbatim>\<open>calculatePolynomialUsingTable\<close> returns failure and the
  coefficient vector as it was given when the table has fewer than 2 columns or fewer than
  2 rows, when the coefficient vector has fewer entries than the table has coefficient
  columns, when the row found has no row after it, or when the breakpoints of the row
  found and of the next row differ by less than 0.001 in absolute value. Otherwise it
  returns success; the entries of the vector below the number of coefficient columns are
  the linear interpolations of the two rows' coefficients, the entries from there on are
  as they were.
\<close>

theorem calculatePolynomialUsingTable_result:
  "calculatePolynomialUsingTable findPrev table v cs =
     (if cols table < 2 \<or> rows table < 2 \<or> length cs + 1 < cols table
         \<or> rows table < findPrev table v + 2
         \<or> \<bar>table ! (findPrev table v + 1) ! 0 - table ! findPrev table v ! 0\<bar> < 0.001
      then (False, cs)
      else (True,
            map (\<lambda>i. if i < cols table - 1
                      then lerp (table ! findPrev table v ! (i + 1))
                             (table ! (findPrev table v + 1) ! (i + 1))
                             ((v - table ! findPrev table v ! 0)
                                / (table ! (findPrev table v + 1) ! 0
                                     - table ! findPrev table v ! 0))
                      else cs ! i)
              [0..<length cs]))"
proof -
  have g: "(int (length cs) < int (cols table) - 1) = (length cs + 1 < cols table)"
    by linarith
  show ?thesis
    unfolding calculatePolynomialUsingTable_def Let_def g
    by (auto simp: fold_list_update_upt not_less)
qed

theorem calculatePolynomialUsingTable_result_witness:
  "calculatePolynomialUsingTable firstRow [[0, 0, 1], [1, 1, 2]] (1 / 2) [7, 7, 7]
     = (True, [1 / 2, 3 / 2, 7]) \<and>
   calculatePolynomialUsingTable firstRow [[0, 0], [0, 0]] (1 / 2) [7] = (False, [7]) \<and>
   calculatePolynomialUsingTable firstRow [[0, 0]] (1 / 2) [7] = (False, [7])"
  using calculatePolynomialUsingTable_result [of firstRow "[[0, 0, 1], [1, 1, 2]]" "1 / 2" "[7, 7, 7]"]
    calculatePolynomialUsingTable_result [of firstRow "[[0, 0], [0, 0]]" "1 / 2" "[7]"]
    calculatePolynomialUsingTable_result [of firstRow "[[0, 0]]" "1 / 2" "[7]"]
  by (simp add: cols_def rows_def lerp_def firstRow_def upt_rec)

text \<open>As the spec words the claim, two rows, two columns and a spacing of at least 0.001
  are enough for success. They are not: with three columns and a coefficient vector of
  one entry the call fails (the table is that of the test \<^verbatim>\<open>test_normal_vector\<close>).\<close>

theorem calculatePolynomialUsingTable_counterexample:
  "\<not> (rows [[0, 0, 1], [1, 1, 2 :: real]] < 2 \<or> cols [[0, 0, 1], [1, 1, 2 :: real]] < 2
        \<or> \<bar>[[0, 0, 1], [1, 1, 2 :: real]] ! 1 ! 0 - [[0, 0, 1], [1, 1, 2]] ! 0 ! 0\<bar> < 0.001) \<and>
   calculatePolynomialUsingTable firstRow [[0, 0, 1], [1, 1, 2]] (1 / 2) [7] = (False, [7])"
  by (simp add: calculatePolynomialUsingTable_def cols_def rows_def)

subsection \<open>Aerodynamic moment\<close>

text \<open>
  C6. The steering moment that \<^verbatim>\<open>calculateAerodynamics\<close> stores has, as its pitch
  component, the elevator derivative looked up at the absolute value of the elevator
  deflection, times the signed deflection; the roll and yaw components use the aileron and
  rudder derivatives looked up at the deflections as they are. The moment returned is the
  sum of that steering moment and of the moment of the polynomial coefficients.
\<close>

theorem elevator_derivative_at_abs:
  "(case calculateAerodynamics findPrev p tb coeffs0 V alpha beta aileron_pos elevator_pos rudder_pos s of
      (F, M, s') \<Rightarrow>
        Msteer s' =
          smul (0.5 * calculateDynamicPressure p (norm3 V) * characteristicLength p)
            (calculateCmxAileron findPrev tb aileron_pos (clamp (norm3 V) 5 40) * aileron_pos,
             calculateCmyElevator findPrev tb \<bar>elevator_pos\<bar> (clamp (norm3 V) 5 40) * elevator_pos,
             calculateCmzRudder findPrev tb rudder_pos (clamp (norm3 V) 5 40) * rudder_pos) \<and>
        M = vadd (Mairspeed s') (Msteer s'))"
  by (simp add: calculateAerodynamics_def Let_def smul_def vadd_def ring_distribs)

subsection \<open>Quaternions and rotation matrices\<close>

lemma qsquaredNorm_nonneg: "0 \<le> qsquaredNorm q"
  by (cases q) (simp add: qsquaredNorm_def)

lemma qsquaredNorm_zero_iff: "qsquaredNorm q = 0 \<longleftrightarrow> q = (0, 0, 0, 0)"
proof (cases q)
  case (fields w x y z)
  have "x * x + y * y + z * z + w * w = 0 \<longleftrightarrow> x = 0 \<and> y = 0 \<and> z = 0 \<and> w = 0"
    using sum_squares_eq_zero_iff [of x y] sum_squares_eq_zero_iff [of z w]
      sum_squares_ge_zero [of x y] sum_squares_ge_zero [of z w]
    by (smt (verit))
  then show ?thesis using fields by (auto simp: qsquaredNorm_def)
qed

lemma qnormalize_unit:
  assumes "0 < qsquaredNorm q"
  shows "qsquaredNorm (qnormalize q) = 1"
proof (cases q)
  case (fields w x y z)
  let ?n = "x * x + y * y + z * z + w * w"
  have n: "0 < ?n" using assms fields by (simp add: qsquaredNorm_def)
  have s: "sqrt ?n * sqrt ?n = ?n" using n by simp
  have d: "(c / sqrt ?n) * (c / sqrt ?n) = c * c / ?n" for c
    by (simp add: s)
  have "x * x / ?n + y * y / ?n + z * z / ?n + w * w / ?n = ?n / ?n"
    by (simp only: add_divide_distrib)
  also have "\<dots> = 1" using n by simp
  finally show ?thesis
    using n fields by (simp add: qnormalize_def qsquaredNorm_def qdiv_def Let_def d)
qed

lemma qnormalize_cases: "qsquaredNorm (qnormalize q) = 1 \<or> qnormalize q = (0, 0, 0, 0)"
proof (cases "0 < qsquaredNorm q")
  case True
  then show ?thesis by (simp add: qnormalize_unit)
next
  case False
  then have "qsquaredNorm q = 0" using qsquaredNorm_nonneg [of q] by simp
  then have "q = (0, 0, 0, 0)" by (simp add: qsquaredNorm_zero_iff)
  then show ?thesis by (simp add: qnormalize_def qsquaredNorm_def)
qed

lemma qsquaredNorm_step:
  "qsquaredNorm (qadd q (qscale (qscale (qmul q (0, w0, w1, w2)) 0.5) dt)) =
     qsquaredNorm q * (1 + (dt / 2)\<^sup>2 * (w0 * w0 + w1 * w1 + w2 * w2))"
  by (cases q) (simp add: qsquaredNorm_def qadd_def qscale_def qmul_def power2_eq_square field_simps)

lemma attitudeStep_unit:
  assumes "q \<noteq> (0, 0, 0, 0)"
  shows "qnorm (attitudeStep q w dt) = 1"
proof (cases w)
  case (fields w0 w1 w2)
  have "0 < qsquaredNorm q"
    using assms qsquaredNorm_nonneg [of q] qsquaredNorm_zero_iff [of q] by linarith
  moreover have "0 < 1 + (dt / 2)\<^sup>2 * (w0 * w0 + w1 * w1 + w2 * w2)"
    by (smt (verit) mult_nonneg_nonneg zero_le_power2 zero_le_square add_nonneg_nonneg)
  ultimately have "0 < qsquaredNorm (qadd q (qscale (qscale (qmul q (0, w0, w1, w2)) 0.5) dt))"
    unfolding qsquaredNorm_step by (rule mult_pos_pos)
  then show ?thesis
    using fields by (simp add: attitudeStep_def qnorm_def qnormalize_unit)
qed

lemma determinant3_rotation:
  assumes "qsquaredNorm q = 1 \<or> q = (0, 0, 0, 0)"
  shows "determinant3 (transpose3 (toRotationMatrix q)) = 1"
proof (cases q)
  case (fields w x y z)
  show ?thesis
    using assms
  proof
    assume "q = (0, 0, 0, 0)"
    then show ?thesis
      by (simp add: toRotationMatrix_def transpose3_def determinant3_def)
  next
    assume "qsquaredNorm q = 1"
    then have n: "x * x + y * y + z * z + w * w = 1"
      using fields by (simp add: qsquaredNorm_def)
    have d: "1 - (2 * y * y + 2 * z * z) = w * w + x * x - y * y - z * z"
      "1 - (2 * x * x + 2 * z * z) = w * w - x * x + y * y - z * z"
      "1 - (2 * x * x + 2 * y * y) = w * w - x * x - y * y + z * z"
      using n by linarith+
    have "determinant3 (transpose3 (toRotationMatrix q)) = (x * x + y * y + z * z + w * w) ^ 3"
      unfolding fields toRotationMatrix_def transpose3_def determinant3_def Let_def
      apply (simp only: prod.case d)
      apply (simp add: power3_eq_cube algebra_simps)
      done
    then show ?thesis by (simp add: n)
  qed
qed

lemma cofactor_row:
  "(a * k) * x + (b * k) * y + (c * k) * z = (a * x + b * y + c * z) * (k :: real)"
  by (simp add: algebra_simps)

lemma inverse3_mulMV:
  assumes "determinant3 m \<noteq> 0"
  shows "mulMV (inverse3 m) (mulMV m v) = v"
proof -
  obtain m00 m01 m02 m10 m11 m12 m20 m21 m22 where
    m: "m = ((m00, m01, m02), (m10, m11, m12), (m20, m21, m22))"
    by (metis prod_cases3)
  obtain v0 v1 v2 where v: "v = (v0, v1, v2)" by (metis prod_cases3)
  let ?d = "(m11 * m22 - m12 * m21) * m00 + (m21 * m02 - m22 * m01) * m10
              + (m01 * m12 - m02 * m11) * m20"
  have d: "?d \<noteq> 0" using assms by (simp add: m determinant3_def)
  have r0: "(m11 * m22 - m12 * m21) * (m00 * v0 + m01 * v1 + m02 * v2)
      + (m21 * m02 - m22 * m01) * (m10 * v0 + m11 * v1 + m12 * v2)
      + (m01 * m12 - m02 * m11) * (m20 * v0 + m21 * v1 + m22 * v2) = v0 * ?d"
    by (simp add: algebra_simps)
  have r1: "(m12 * m20 - m10 * m22) * (m00 * v0 + m01 * v1 + m02 * v2)
      + (m22 * m00 - m20 * m02) * (m10 * v0 + m11 * v1 + m12 * v2)
      + (m02 * m10 - m00 * m12) * (m20 * v0 + m21 * v1 + m22 * v2) = v1 * ?d"
    by (simp add: algebra_simps)
  have r2: "(m10 * m21 - m11 * m20) * (m00 * v0 + m01 * v1 + m02 * v2)
      + (m20 * m01 - m21 * m00) * (m10 * v0 + m11 * v1 + m12 * v2)
      + (m00 * m11 - m01 * m10) * (m20 * v0 + m21 * v1 + m22 * v2) = v2 * ?d"
    by (simp add: algebra_simps)
  have k: "c * ?d * (1 / ?d) = c" for c
    using d by simp
  show ?thesis
    unfolding m v inverse3_def mulMV_def determinant3_def Let_def
    by (simp only: prod.case cofactor_row r0 r1 r2 k)
qed

lemma mulMV_smul: "mulMV m (smul k v) = smul k (mulMV m v)"
proof -
  obtain m00 m01 m02 m10 m11 m12 m20 m21 m22 where
    m: "m = ((m00, m01, m02), (m10, m11, m12), (m20, m21, m22))"
    by (metis prod_cases3)
  obtain v0 v1 v2 where v: "v = (v0, v1, v2)" by (metis prod_cases3)
  show ?thesis by (simp add: m v mulMV_def smul_def algebra_simps)
qed

text \<open>Gravity alone: the acceleration the integrator computes when no specific force acts.\<close>

lemma linearAccel_gravity:
  assumes "determinant3 R \<noteq> 0" and "m \<noteq> 0"
  shows "sdiv (mulMV (inverse3 R) (smul m (vadd (sdiv (0, 0, 0) m) (mulMV R (0, 0, g))))) m
           = (0, 0, g)"
proof -
  have "vadd (sdiv (0, 0, 0) m) (mulMV R (0, 0, g)) = mulMV R (0, 0, g)"
    by (cases "mulMV R (0, 0, g)") (simp add: vadd_def sdiv_def)
  moreover have "smul m (mulMV R (0, 0, g)) = mulMV R (smul m (0, 0, g))"
    by (simp add: mulMV_smul)
  ultimately show ?thesis
    using assms by (simp add: inverse3_mulMV) (simp add: smul_def sdiv_def)
qed

subsection \<open>The integration step\<close>

lemma thrusterStep_shape:
  "\<exists>th tq rpm. thruster findPrev tb (a ! i) (th0 ! i, tq0 ! i, motorsRpm s ! i) = (th, tq, rpm) \<and>
     thrusterStep findPrev tb a i (th0, tq0, s)
       = (th0[i := th], tq0[i := tq], s\<lparr>motorsRpm := (motorsRpm s)[i := rpm]\<rparr>)"
  by (cases "thruster findPrev tb (a ! i) (th0 ! i, tq0 ! i, motorsRpm s ! i)")
    (simp add: thrusterStep_def)

lemma fold_thrusterStep_state:
  "\<exists>th tq r. fold (thrusterStep findPrev tb a) ids (th0, tq0, s) = (th, tq, s\<lparr>motorsRpm := r\<rparr>)
     \<and> length r = length (motorsRpm s)"
proof (induction ids arbitrary: th0 tq0 s)
  case Nil
  show ?case by (rule exI [of _ th0], rule exI [of _ tq0], rule exI [of _ "motorsRpm s"]) simp
next
  case (Cons i ids)
  obtain th tq rpm where st: "thrusterStep findPrev tb a i (th0, tq0, s)
       = (th0[i := th], tq0[i := tq], s\<lparr>motorsRpm := (motorsRpm s)[i := rpm]\<rparr>)"
    using thrusterStep_shape by blast
  from Cons [of "th0[i := th]" "tq0[i := tq]" "s\<lparr>motorsRpm := (motorsRpm s)[i := rpm]\<rparr>"] show ?case
    by (auto simp: st)
qed

lemma thruster_fst:
  "fst (thruster findPrev tb act (t, q, r)) = fst (thruster findPrev tb act (t, 0, 0))"
  by (simp add: thruster_def Let_def)

lemma fold_thrusterStep_thrust:
  "distinct ids \<Longrightarrow> \<forall>j \<in> set ids. j < length th0 \<Longrightarrow>
   fst (fold (thrusterStep findPrev tb a) ids (th0, tq0, s)) ! i =
     (if i \<in> set ids then fst (thruster findPrev tb (a ! i) (th0 ! i, 0, 0)) else th0 ! i)"
proof (induction ids arbitrary: th0 tq0 s)
  case Nil
  then show ?case by simp
next
  case (Cons k ids)
  obtain th tq rpm where
    t: "thruster findPrev tb (a ! k) (th0 ! k, tq0 ! k, motorsRpm s ! k) = (th, tq, rpm)" and
    st: "thrusterStep findPrev tb a k (th0, tq0, s)
       = (th0[k := th], tq0[k := tq], s\<lparr>motorsRpm := (motorsRpm s)[k := rpm]\<rparr>)"
    using thrusterStep_shape by blast
  have th: "th = fst (thruster findPrev tb (a ! k) (th0 ! k, 0, 0))"
    using t thruster_fst [of findPrev tb "a ! k" "th0 ! k" "tq0 ! k" "motorsRpm s ! k"] by simp
  have k: "k \<notin> set ids" "distinct ids" "k < length th0" "\<forall>j \<in> set ids. j < length (th0[k := th])"
    using Cons.prems by auto
  show ?case
    using Cons.IH [OF k(2) k(4), of "tq0[k := tq]" "s\<lparr>motorsRpm := (motorsRpm s)[k := rpm]\<rparr>"] k th
    by (auto simp: st nth_list_update)
qed

lemma fold_Fmotors:
  "fold (\<lambda>idx s. s\<lparr>Fmotors := (Fmotors s)[idx := f idx]\<rparr>) ids s =
     s\<lparr>Fmotors := fold (\<lambda>idx l. l[idx := f idx]) ids (Fmotors s)\<rparr>"
  by (induction ids arbitrary: s) simp_all

lemma fold_Mmotors:
  "fold (\<lambda>idx s. s\<lparr>Mmotors := (Mmotors s)[idx := vadd (g idx) (cross (h idx) (Fmotors s ! idx))]\<rparr>) ids s =
     s\<lparr>Mmotors := fold (\<lambda>idx l. l[idx := vadd (g idx) (cross (h idx) (Fmotors s ! idx))]) ids (Mmotors s)\<rparr>"
  by (induction ids arbitrary: s) simp_all

text \<open>The result of the integration in terms of the thrust and torque vectors.\<close>

lemma integrateState_staged:
  fixes findPrev :: findPrevRowIdx and p :: VtolParameters and s :: State
    and th tq :: VectorXd and M F :: Vector3d and dt :: real
  defines "Fm \<equiv> (fold (\<lambda>idx l. l[idx := (0, 0, - th ! idx)]) [0..<4] (Fmotors s))[4 := (th ! 4, 0, 0)]"
  defines "Mm \<equiv> fold (\<lambda>idx l. l[idx :=
              vadd ([(0, 0, tq ! 0), (0, 0, tq ! 1), (0, 0, - tq ! 2), (0, 0, - tq ! 3),
                     (- tq ! 4, 0, 0)] ! idx)
                (cross (propellersLocation p ! idx) (Fm ! idx))]) [0..<5] (Mmotors s)"
  defines "Mt \<equiv> foldl vadd M (take 5 Mm)"
  defines "aa \<equiv> calculateAngularAccel (inertia p) Mt (angularVel s)"
  defines "w1 \<equiv> vadd (angularVel s) (smul dt aa)"
  defines "q1 \<equiv> attitudeStep (attitude s) w1 dt"
  defines "R1 \<equiv> transpose3 (toRotationMatrix q1)"
  defines "Fs1 \<equiv> sdiv (foldl vadd F (take 5 Fm)) (mass p)"
  defines "Ft \<equiv> smul (mass p) (vadd Fs1 (mulMV R1 (0, 0, gravity p)))"
  defines "la \<equiv> sdiv (mulMV (inverse3 R1) Ft) (mass p)"
  defines "v1 \<equiv> vadd (linearVel s) (smul dt la)"
  assumes f: "fold (thrusterStep findPrev tb a) [0..<5] (th0, tq0, s) = (th, tq, s\<lparr>motorsRpm := r\<rparr>)"
  shows "integrateState findPrev p tb th0 tq0 M F a dt s =
           (s\<lparr>motorsRpm := r, Fmotors := Fm, Mmotors := Mm, angularAccel := aa,
              angularVel := w1, attitude := q1, Ftotal := Ft, Mtotal := Mt,
              linearAccel := la, linearVel := v1,
              position := vadd (position s) (smul dt v1)\<rparr>, R1, Fs1)"
  unfolding integrateState_def f Fm_def Mm_def Mt_def aa_def w1_def q1_def R1_def Fs1_def Ft_def
    la_def v1_def
  by (simp add: Let_def attitudeStep_def fold_Fmotors fold_Mmotors calculateRotationMatrix_def)

lemma length_fold_update:
  "length (fold (\<lambda>idx l. l[idx := g idx]) ids l) = length l"
  by (induction ids arbitrary: l) simp_all

lemma integrateState_props:
  fixes findPrev :: findPrevRowIdx
  assumes f: "fold (thrusterStep findPrev tb a) [0..<5] (th0, tq0, s) = (th, tq, s\<lparr>motorsRpm := r\<rparr>)"
    and i: "integrateState findPrev p tb th0 tq0 M F a dt s = (s1, R, Fs)"
  shows "attitude s1 = attitudeStep (attitude s) (angularVel s1) dt"
    and "initialAttitude s1 = initialAttitude s"
    and "motorsRpm s1 = r"
    and "Fmotors s1 =
           (fold (\<lambda>idx l. l[idx := (0, 0, - th ! idx)]) [0..<4] (Fmotors s))[4 := (th ! 4, 0, 0)]"
    and "length (Mmotors s1) = length (Mmotors s)"
    and "prevActuators s1 = prevActuators s" and "crntActuators s1 = crntActuators s"
    and "R = transpose3 (toRotationMatrix (attitude s1))"
    and "linearAccel s1 =
           sdiv (mulMV (inverse3 R)
                   (smul (mass p)
                      (vadd (sdiv (foldl vadd F (take 5 (Fmotors s1))) (mass p))
                         (mulMV R (0, 0, gravity p)))))
             (mass p)"
    and "linearVel s1 = vadd (linearVel s) (smul dt (linearAccel s1))"
    and "position s1 = vadd (position s) (smul dt (linearVel s1))"
  using i [unfolded integrateState_staged [OF f]] by (auto simp: length_fold_update)

lemma calculateNewState_ground:
  assumes "integrateState findPrev p tb th0 tq0 M F a dt s = (s1, R, Fs)"
    and "vz (position s1) \<ge> 0"
  shows "linearVel (calculateNewState findPrev p tb th0 tq0 M F a dt s) = (0, 0, 0)"
    and "angularVel (calculateNewState findPrev p tb th0 tq0 M F a dt s) = (0, 0, 0)"
    and "attitude (calculateNewState findPrev p tb th0 tq0 M F a dt s) = initialAttitude s1"
    and "initialAttitude (calculateNewState findPrev p tb th0 tq0 M F a dt s) = initialAttitude s1"
    and "motorsRpm (calculateNewState findPrev p tb th0 tq0 M F a dt s)
           = map (\<lambda>_. 0) (motorsRpm s1)"
    and "vz (position (calculateNewState findPrev p tb th0 tq0 M F a dt s)) = 0"
    and "Fmotors (calculateNewState findPrev p tb th0 tq0 M F a dt s) = Fmotors s1"
    and "Mmotors (calculateNewState findPrev p tb th0 tq0 M F a dt s) = Mmotors s1"
    and "prevActuators (calculateNewState findPrev p tb th0 tq0 M F a dt s) = prevActuators s1"
    and "crntActuators (calculateNewState findPrev p tb th0 tq0 M F a dt s) = crntActuators s1"
  using assms
  by (simp_all add: calculateNewState_def land_def Let_def vz_def split: prod.splits)

lemma calculateNewState_air:
  assumes "integrateState findPrev p tb th0 tq0 M F a dt s = (s1, R, Fs)"
    and "\<not> vz (position s1) \<ge> 0"
  shows "attitude (calculateNewState findPrev p tb th0 tq0 M F a dt s) = attitude s1"
  using assms by (simp add: calculateNewState_def Let_def)

lemma foldl_vadd_zeros: "\<forall>x \<in> set xs. x = (0, 0, 0) \<Longrightarrow> foldl vadd F xs = F"
  by (induction xs arbitrary: F) (auto simp: vadd_def split: prod.splits)

text \<open>Without thrust and aerodynamic force the vertical position moves under gravity alone.\<close>

lemma integrateState_zeroThrust:
  assumes z: "zeroThrust findPrev tb (th0, tq0, M, F, a, dt)"
    and na: "F = (0, 0, 0)"
    and sz: "length (Fmotors s) = 5"
    and m: "mass p \<noteq> 0"
    and i: "integrateState findPrev p tb th0 tq0 M F a dt s = (s1, R, Fs)"
  shows "position s1 = vadd (position s) (smul dt (vadd (linearVel s) (smul dt (0, 0, gravity p))))"
proof -
  obtain th tq r where
    f: "fold (thrusterStep findPrev tb a) [0..<5] (th0, tq0, s) = (th, tq, s\<lparr>motorsRpm := r\<rparr>)"
    using fold_thrusterStep_state by blast
  note pr = integrateState_props [OF f i]
  have th: "th ! k = 0" if "k < 5" for k
  proof -
    have "fst (fold (thrusterStep findPrev tb a) [0..<5] (th0, tq0, s)) ! k
            = fst (thruster findPrev tb (a ! k) (th0 ! k, 0, 0))"
      using that z fold_thrusterStep_thrust [of "[0..<5]" th0 findPrev tb a tq0 s k]
      by (simp add: zeroThrust_def)
    then show ?thesis using that z by (simp add: f zeroThrust_def)
  qed
  have "fold (\<lambda>idx l. l[idx := (0, 0, - th ! idx)]) [0..<4] (Fmotors s) =
          map (\<lambda>i. if i < 4 then (0, 0, - th ! i) else Fmotors s ! i) [0..<length (Fmotors s)]"
    by (rule fold_list_update_upt) (simp add: sz)
  then have Fm: "Fmotors s1 = (map (\<lambda>i. if i < 4 then (0, 0, - th ! i) else Fmotors s ! i) [0..<5])
                    [4 := (th ! 4, 0, 0)]"
    using pr(4) sz by simp
  have "x = (0, 0, 0)" if "x \<in> set (take 5 (Fmotors s1))" for x
  proof -
    from that have "x \<in> set (Fmotors s1)" by (rule in_set_takeD)
    then obtain k where k: "k < 5" "x = Fmotors s1 ! k"
      unfolding Fm by (auto simp: in_set_conv_nth)
    then show ?thesis
      unfolding Fm using th by (auto simp: nth_list_update)
  qed
  then have zero: "foldl vadd F (take 5 (Fmotors s1)) = (0, 0, 0)"
    using na by (simp add: foldl_vadd_zeros)
  have "determinant3 R = 1"
    unfolding pr(8) pr(1) attitudeStep_def by (rule determinant3_rotation) (rule qnormalize_cases)
  then have "linearAccel s1 = (0, 0, gravity p)"
    using m unfolding pr(9) zero by (simp add: linearAccel_gravity)
  then show ?thesis
    using pr(10) pr(11) by simp
qed

lemma integrateState_length_Fmotors:
  assumes "integrateState findPrev p tb th0 tq0 M F a dt s = (s1, R, Fs)"
  shows "length (Fmotors s1) = length (Fmotors s)" and "length (motorsRpm s1) = length (motorsRpm s)"
proof -
  obtain th tq r where
    f: "fold (thrusterStep findPrev tb a) [0..<5] (th0, tq0, s) = (th, tq, s\<lparr>motorsRpm := r\<rparr>)"
    and r: "length r = length (motorsRpm s)"
    using fold_thrusterStep_state by blast
  show "length (Fmotors s1) = length (Fmotors s)"
    using integrateState_props(4) [OF f assms] by (simp add: length_fold_update)
  show "length (motorsRpm s1) = length (motorsRpm s)"
    using integrateState_props(3) [OF f assms] r by simp
qed

text \<open>A landed vehicle lands again at every tick without thrust.\<close>

lemma ticks_landed:
  assumes "mass p \<noteq> 0" and "0 \<le> gravity p"
    and "\<forall>t \<in> set ts. zeroThrust findPrev tb t \<and> noAeroForce t"
    and "length (Fmotors s) = 5"
    and "linearVel s = (0, 0, 0)" and "vz (position s) = 0"
    and "angularVel s = (0, 0, 0)" and "attitude s = initialAttitude s"
  shows "linearVel (ticks findPrev p tb s ts) = (0, 0, 0) \<and>
         angularVel (ticks findPrev p tb s ts) = (0, 0, 0) \<and>
         attitude (ticks findPrev p tb s ts) = initialAttitude s"
  using assms
proof (induction ts arbitrary: s)
  case Nil
  then show ?case by simp
next
  case (Cons t ts)
  obtain th0 tq0 M F a dt where t: "t = (th0, tq0, M, F, a, dt)"
    by (metis prod_cases6)
  obtain s1 R Fs where i: "integrateState findPrev p tb th0 tq0 M F a dt s = (s1, R, Fs)"
    by (metis prod_cases3)
  let ?s' = "calculateNewState findPrev p tb th0 tq0 M F a dt s"
  have "zeroThrust findPrev tb t \<and> noAeroForce t"
    using Cons.prems(3) by simp
  then have z: "zeroThrust findPrev tb (th0, tq0, M, F, a, dt)" and na: "F = (0, 0, 0)"
    unfolding t noAeroForce_def prod.case by blast+
  have "position s1 = vadd (position s) (smul dt (vadd (linearVel s) (smul dt (0, 0, gravity p))))"
    using integrateState_zeroThrust [OF z na Cons.prems(4) Cons.prems(1) i] .
  then have "vz (position s1) = dt * (dt * gravity p)"
    using Cons.prems(5,6) by (cases "position s") (simp add: vadd_def smul_def vz_def)
  moreover have "0 \<le> (dt * dt) * gravity p"
    using zero_le_square [of dt] Cons.prems(2) by (rule mult_nonneg_nonneg)
  ultimately have g: "vz (position s1) \<ge> 0"
    by (simp add: mult.assoc)
  obtain th tq r where
    f: "fold (thrusterStep findPrev tb a) [0..<5] (th0, tq0, s) = (th, tq, s\<lparr>motorsRpm := r\<rparr>)"
    using fold_thrusterStep_state by blast
  have ia: "initialAttitude s1 = initialAttitude s"
    using integrateState_props(2) [OF f i] .
  note gr = calculateNewState_ground [OF i g]
  have "linearVel (ticks findPrev p tb ?s' ts) = (0, 0, 0) \<and>
        angularVel (ticks findPrev p tb ?s' ts) = (0, 0, 0) \<and>
        attitude (ticks findPrev p tb ?s' ts) = initialAttitude ?s'"
  proof (rule Cons.IH)
    show "mass p \<noteq> 0" "0 \<le> gravity p" by (rule Cons.prems)+
    show "\<forall>t \<in> set ts. zeroThrust findPrev tb t \<and> noAeroForce t"
      using Cons.prems(3) by simp
    show "length (Fmotors ?s') = 5"
      using gr(7) integrateState_length_Fmotors(1) [OF i] Cons.prems(4) by simp
    show "linearVel ?s' = (0, 0, 0)" by (rule gr(1))
    show "vz (position ?s') = 0" by (rule gr(6))
    show "angularVel ?s' = (0, 0, 0)" by (rule gr(2))
    show "attitude ?s' = initialAttitude ?s'" using gr(3) gr(4) by simp
  qed
  then show ?case
    using gr(4) ia by (simp add: t)
qed

subsection \<open>Calibration\<close>

lemma calibrate_attitude:
  "attitude (snd (calibrate p m s)) =
     attitudeStep
       (case fixedAttitude m of
          None \<Rightarrow> attitude s
        | Some q \<Rightarrow> if assignsOnEntry m \<and> prevCalibrationType s = m then attitude s else q)
       (angularVel (snd (calibrate p m s))) DELTA_TIME"
  by (cases m) (simp_all add: calibrate_def Let_def attitudeStep_def assignsOnEntry_def fixedAttitude_def)

lemma calibrate_records: "prevCalibrationType (snd (calibrate p m s)) = m"
  by (cases m) (simp_all add: calibrate_def Let_def)

text \<open>
  C8, as the code has it. Every call of \<^verbatim>\<open>calibrate\<close> records its mode as the previous
  mode. For the six magnetometer and six accelerometer modes whose case tests the
  previously recorded mode, the fixed quaternion is assigned only when the mode differs
  from the recorded one; on a call with the recorded mode, and so on every call that
  follows a call with the same mode, the attitude is the one before the call, advanced by
  one fixed step of the first-order integration. The modes \<open>MAG_7\<close> to \<open>MAG_9\<close> assign
  no quaternion at all. The airspeed mode (like the work mode) assigns the identity
  quaternion on every call.
\<close>

theorem calibrate_assigns_attitude:
  "prevCalibrationType (snd (calibrate p m s)) = m \<and>
   (assignsOnEntry m \<and> fixedAttitude m = Some q \<longrightarrow>
      attitude (snd (calibrate p m s)) =
        attitudeStep (if prevCalibrationType s \<noteq> m then q else attitude s)
          (angularVel (snd (calibrate p m s))) DELTA_TIME) \<and>
   (assignsOnEntry m \<longrightarrow>
      attitude (snd (calibrate p m (snd (calibrate p m s)))) =
        attitudeStep (attitude (snd (calibrate p m s)))
          (angularVel (snd (calibrate p m (snd (calibrate p m s))))) DELTA_TIME) \<and>
   (m \<in> {MAG_7_ARDUPILOT, MAG_8_ARDUPILOT, MAG_9_ARDUPILOT} \<longrightarrow>
      attitude (snd (calibrate p m s)) =
        attitudeStep (attitude s) (angularVel (snd (calibrate p m s))) DELTA_TIME) \<and>
   (m \<in> {AIRSPEED, WORK_MODE} \<longrightarrow>
      attitude (snd (calibrate p m s)) = attitudeStep (1, 0, 0, 0) (0, 0, 0) DELTA_TIME)"
proof -
  have w: "m \<in> {AIRSPEED, WORK_MODE} \<Longrightarrow> angularVel (snd (calibrate p m s)) = (0, 0, 0)"
    by (auto simp: calibrate_def Let_def)
  have again: "attitude (snd (calibrate p m (snd (calibrate p m s)))) =
        attitudeStep (attitude (snd (calibrate p m s)))
          (angularVel (snd (calibrate p m (snd (calibrate p m s))))) DELTA_TIME"
    if "assignsOnEntry m"
    using that unfolding calibrate_attitude [of p m "snd (calibrate p m s)"]
    by (auto simp: calibrate_records fixedAttitude_def split: option.splits)
  show ?thesis
    using w again
    by (auto simp: calibrate_records calibrate_attitude assignsOnEntry_def fixedAttitude_def)
qed

theorem calibrate_assigns_attitude_witness:
  "prevCalibrationType (snd (calibrate exampleParams MAG_2_OVERTURNED restState))
     = MAG_2_OVERTURNED \<and>
   assignsOnEntry MAG_2_OVERTURNED \<and> fixedAttitude MAG_2_OVERTURNED = Some (0, 1, 0, 0) \<and>
   attitude (snd (calibrate exampleParams MAG_2_OVERTURNED restState))
     = attitudeStep (0, 1, 0, 0) (0, 0, MAG_ROTATION_SPEED) DELTA_TIME \<and>
   attitude (snd (calibrate exampleParams MAG_2_OVERTURNED
                    (snd (calibrate exampleParams MAG_2_OVERTURNED restState))))
     = attitudeStep (attitude (snd (calibrate exampleParams MAG_2_OVERTURNED restState)))
         (0, 0, MAG_ROTATION_SPEED) DELTA_TIME \<and>
   attitude (snd (calibrate exampleParams MAG_7_ARDUPILOT restState))
     = attitudeStep (1, 0, 0, 0) (MAG_ROTATION_SPEED, MAG_ROTATION_SPEED, MAG_ROTATION_SPEED)
         DELTA_TIME \<and>
   attitude (snd (calibrate exampleParams AIRSPEED
                    (snd (calibrate exampleParams AIRSPEED tiltedState))))
     = attitudeStep (1, 0, 0, 0) (0, 0, 0) DELTA_TIME"
proof -
  have w: "angularVel (snd (calibrate exampleParams MAG_2_OVERTURNED x))
             = (0, 0, MAG_ROTATION_SPEED)"
    "angularVel (snd (calibrate exampleParams MAG_7_ARDUPILOT x))
             = (MAG_ROTATION_SPEED, MAG_ROTATION_SPEED, MAG_ROTATION_SPEED)" for x
    by (simp_all add: calibrate_def Let_def)
  have r: "prevCalibrationType restState = WORK_MODE" "attitude restState = (1, 0, 0, 0)"
    by (simp_all add: restState_def)
  show ?thesis
    using calibrate_assigns_attitude [of exampleParams MAG_2_OVERTURNED restState "(0, 1, 0, 0)"]
      calibrate_assigns_attitude [of exampleParams MAG_7_ARDUPILOT restState "(0, 1, 0, 0)"]
      calibrate_assigns_attitude [of exampleParams AIRSPEED
        "snd (calibrate exampleParams AIRSPEED tiltedState)" "(0, 1, 0, 0)"]
    by (simp add: w r assignsOnEntry_def fixedAttitude_def)
qed

text \<open>For the airspeed mode the claim as the spec words it fails: called in the airspeed
  mode with the airspeed mode recorded as the previous one and the vehicle overturned, the
  attitude afterwards is the identity, not the one before the call advanced by a step.\<close>

theorem calibrate_assigns_attitude_counterexample:
  "prevCalibrationType (restState\<lparr>attitude := (0, 1, 0, 0), prevCalibrationType := AIRSPEED\<rparr>)
     = AIRSPEED \<and>
   attitude (snd (calibrate exampleParams AIRSPEED
                    (restState\<lparr>attitude := (0, 1, 0, 0), prevCalibrationType := AIRSPEED\<rparr>)))
     \<noteq> attitudeStep
         (attitude (restState\<lparr>attitude := (0, 1, 0, 0), prevCalibrationType := AIRSPEED\<rparr>))
         (angularVel (snd (calibrate exampleParams AIRSPEED
                    (restState\<lparr>attitude := (0, 1, 0, 0), prevCalibrationType := AIRSPEED\<rparr>))))
         DELTA_TIME"
  by (simp add: calibrate_def Let_def attitudeStep_def qmul_def qscale_def qadd_def
      qnormalize_def qsquaredNorm_def qdiv_def)

subsection \<open>Unit norm of the attitude\<close>

text \<open>An idle tick gives no thrust and has no aerodynamic force, and the position it
  integrates follows gravity.\<close>

lemma idle_noAeroForce: "noAeroForce idleTick"
  by (simp add: noAeroForce_def idleTick_def)

lemma idle_zeroThrust: "zeroThrust firstRow exampleTables idleTick"
  by (simp add: zeroThrust_def idleTick_def upt_0_5 thruster_def firstRow_def exampleTables_def
      rows_def lerp_def Let_def del: set_upt)

lemma idle_position:
  assumes "length (Fmotors s) = 5"
  shows "position (fst (integrateState firstRow exampleParams exampleTables
            [0, 0, 0, 0, 0] [0, 0, 0, 0, 0] (0, 0, 0) (0, 0, 0) [0, 0, 0, 0, 0, 0, 0, 0] 0.0025 s))
         = vadd (position s) (smul 0.0025 (vadd (linearVel s) (smul 0.0025 (0, 0, 9.8066))))"
proof -
  obtain s1 R Fs where i: "integrateState firstRow exampleParams exampleTables
      [0, 0, 0, 0, 0] [0, 0, 0, 0, 0] (0, 0, 0) (0, 0, 0) [0, 0, 0, 0, 0, 0, 0, 0] 0.0025 s
        = (s1, R, Fs)"
    by (metis prod_cases3)
  have m: "mass exampleParams \<noteq> 0" and g: "gravity exampleParams = 9.8066"
    by (simp_all add: exampleParams_def)
  show ?thesis
    unfolding i fst_conv
    using integrateState_zeroThrust [OF idle_zeroThrust [unfolded idleTick_def] refl assms m i]
    by (simp add: g)
qed

text \<open>
  C2, as the code has it. For a state whose attitude is not the zero quaternion: after an
  integration step the attitude has norm 1 if the stored initial attitude has norm 1, and
  in any case if the step does not end in ground contact (a step that does leaves the
  stored initial attitude in the state, as it was given); after a calibration tick the
  attitude has norm 1.
\<close>

theorem attitude_unit_norm:
  assumes "attitude s \<noteq> (0, 0, 0, 0)"
  shows "(qnorm (initialAttitude s) = 1 \<longrightarrow>
            qnorm (attitude (calculateNewState findPrev p tb th0 tq0 M F a dt s)) = 1) \<and>
         (vz (position (fst (integrateState findPrev p tb th0 tq0 M F a dt s))) < 0 \<longrightarrow>
            qnorm (attitude (calculateNewState findPrev p tb th0 tq0 M F a dt s)) = 1) \<and>
         (vz (position (fst (integrateState findPrev p tb th0 tq0 M F a dt s))) \<ge> 0 \<longrightarrow>
            attitude (calculateNewState findPrev p tb th0 tq0 M F a dt s) = initialAttitude s) \<and>
         qnorm (attitude (snd (calibrate p m s))) = 1"
proof -
  obtain s1 R Fs where i: "integrateState findPrev p tb th0 tq0 M F a dt s = (s1, R, Fs)"
    by (metis prod_cases3)
  obtain th tq r where
    f: "fold (thrusterStep findPrev tb a) [0..<5] (th0, tq0, s) = (th, tq, s\<lparr>motorsRpm := r\<rparr>)"
    using fold_thrusterStep_state by blast
  note pr = integrateState_props [OF f i]
  have air: "qnorm (attitude (calculateNewState findPrev p tb th0 tq0 M F a dt s)) = 1"
    if "vz (position s1) < 0"
    using that assms calculateNewState_air [OF i] pr(1) by (simp add: attitudeStep_unit not_le)
  have ground: "attitude (calculateNewState findPrev p tb th0 tq0 M F a dt s) = initialAttitude s"
    if "vz (position s1) \<ge> 0"
    using calculateNewState_ground(3) [OF i that] pr(2) by simp
  have both: "qnorm (attitude (calculateNewState findPrev p tb th0 tq0 M F a dt s)) = 1"
    if "qnorm (initialAttitude s) = 1"
    using that air ground by (cases "vz (position s1) < 0") (simp_all add: not_less)
  have nz: "(case fixedAttitude m of None \<Rightarrow> attitude s
             | Some q \<Rightarrow> if assignsOnEntry m \<and> prevCalibrationType s = m then attitude s else q)
              \<noteq> (0, 0, 0, 0)"
    using assms by (auto simp: fixedAttitude_def split: option.splits if_splits)
  have cal: "qnorm (attitude (snd (calibrate p m s))) = 1"
    unfolding calibrate_attitude by (rule attitudeStep_unit) (rule nz)
  show ?thesis
    using air ground both cal by (simp add: i)
qed

theorem attitude_unit_norm_witness:
  "attitude descendingState \<noteq> (0, 0, 0, 0) \<and> qnorm (initialAttitude descendingState) = 1 \<and>
   qnorm (attitude (calculateNewState firstRow exampleParams exampleTables
         [0, 0, 0, 0, 0] [0, 0, 0, 0, 0] (0, 0, 0) (0, 0, 0) [0, 0, 0, 0, 0, 0, 0, 0] 0.0025
         descendingState)) = 1 \<and>
   qnorm (attitude (snd (calibrate exampleParams MAG_1_NORMAL descendingState))) = 1 \<and>
   attitude airborneState \<noteq> (0, 0, 0, 0) \<and>
   vz (position (fst (integrateState firstRow exampleParams exampleTables
         [0, 0, 0, 0, 0] [0, 0, 0, 0, 0] (0, 0, 0) (0, 0, 0) [0, 0, 0, 0, 0, 0, 0, 0] 0.0025
         airborneState))) < 0 \<and>
   qnorm (attitude (calculateNewState firstRow exampleParams exampleTables
         [0, 0, 0, 0, 0] [0, 0, 0, 0, 0] (0, 0, 0) (0, 0, 0) [0, 0, 0, 0, 0, 0, 0, 0] 0.0025
         airborneState)) = 1 \<and>
   attitude tiltedState \<noteq> (0, 0, 0, 0) \<and>
   vz (position (fst (integrateState firstRow exampleParams exampleTables
         [0, 0, 0, 0, 0] [0, 0, 0, 0, 0] (0, 0, 0) (0, 0, 0) [0, 0, 0, 0, 0, 0, 0, 0] 0.0025
         tiltedState))) \<ge> 0 \<and>
   attitude (calculateNewState firstRow exampleParams exampleTables
         [0, 0, 0, 0, 0] [0, 0, 0, 0, 0] (0, 0, 0) (0, 0, 0) [0, 0, 0, 0, 0, 0, 0, 0] 0.0025
         tiltedState) = (1, 0.2, 0.10, 0.05)"
proof -
  have d: "attitude descendingState \<noteq> (0, 0, 0, 0)" "qnorm (initialAttitude descendingState) = 1"
    by (simp_all add: descendingState_def restState_def qnorm_def qsquaredNorm_def)
  have a: "attitude airborneState \<noteq> (0, 0, 0, 0)"
    by (simp add: airborneState_def restState_def)
  have t: "attitude tiltedState \<noteq> (0, 0, 0, 0)"
    "initialAttitude tiltedState = (1, 0.2, 0.10, 0.05)"
    by (simp_all add: tiltedState_def)
  have pa: "vz (position (fst (integrateState firstRow exampleParams exampleTables
         [0, 0, 0, 0, 0] [0, 0, 0, 0, 0] (0, 0, 0) (0, 0, 0) [0, 0, 0, 0, 0, 0, 0, 0] 0.0025
         airborneState))) < 0"
    by (subst idle_position)
      (simp_all add: airborneState_def restState_def vadd_def smul_def vz_def)
  have pt: "vz (position (fst (integrateState firstRow exampleParams exampleTables
         [0, 0, 0, 0, 0] [0, 0, 0, 0, 0] (0, 0, 0) (0, 0, 0) [0, 0, 0, 0, 0, 0, 0, 0] 0.0025
         tiltedState))) \<ge> 0"
    by (subst idle_position)
      (simp_all add: tiltedState_def restState_def vadd_def smul_def vz_def)
  show ?thesis
    using d a t pa pt
      attitude_unit_norm [OF d(1), of firstRow exampleParams exampleTables
        "[0, 0, 0, 0, 0]" "[0, 0, 0, 0, 0]" "(0, 0, 0)" "(0, 0, 0)" "[0, 0, 0, 0, 0, 0, 0, 0]"
        "0.0025" MAG_1_NORMAL]
      attitude_unit_norm [OF a, of firstRow exampleParams exampleTables
        "[0, 0, 0, 0, 0]" "[0, 0, 0, 0, 0]" "(0, 0, 0)" "(0, 0, 0)" "[0, 0, 0, 0, 0, 0, 0, 0]"
        "0.0025" MAG_1_NORMAL]
      attitude_unit_norm [OF t(1), of firstRow exampleParams exampleTables
        "[0, 0, 0, 0, 0]" "[0, 0, 0, 0, 0]" "(0, 0, 0)" "(0, 0, 0)" "[0, 0, 0, 0, 0, 0, 0, 0]"
        "0.0025" MAG_1_NORMAL]
    by simp
qed

text \<open>The claim as the spec words it fails on the state, the actuators and the step of
  the repository's own test \<^verbatim>\<open>calculateNewStateFirstCaseOnlyAttitude\<close>: the step from the
  origin ends in ground contact, and the attitude afterwards is the initial attitude
  (1, 0.2, 0.1, 0.05), whose norm is the square root of 1.0525.\<close>

theorem attitude_unit_norm_counterexample:
  "\<not> \<bar>qnorm (attitude (calculateNewState firstRow exampleParams exampleTables
         [0, 0, 0, 0, 0] [0, 0, 0, 0, 0] (0, 0, 0) (0, 0, 0) [0, 0, 0, 0, 0, 0, 0, 0] 0.0025
         tiltedState)) - 1\<bar> \<le> 1 / 10 ^ 9"
proof -
  obtain s1 R Fs where i: "integrateState firstRow exampleParams exampleTables
      [0, 0, 0, 0, 0] [0, 0, 0, 0, 0] (0, 0, 0) (0, 0, 0) [0, 0, 0, 0, 0, 0, 0, 0] 0.0025
      tiltedState = (s1, R, Fs)"
    by (metis prod_cases3)
  obtain th tq r where
    f: "fold (thrusterStep firstRow exampleTables [0, 0, 0, 0, 0, 0, 0, 0]) [0..<5]
          ([0, 0, 0, 0, 0], [0, 0, 0, 0, 0], tiltedState) = (th, tq, tiltedState\<lparr>motorsRpm := r\<rparr>)"
    using fold_thrusterStep_state by blast
  have "vz (position (fst (integrateState firstRow exampleParams exampleTables
         [0, 0, 0, 0, 0] [0, 0, 0, 0, 0] (0, 0, 0) (0, 0, 0) [0, 0, 0, 0, 0, 0, 0, 0] 0.0025
         tiltedState))) \<ge> 0"
    by (subst idle_position)
      (simp_all add: tiltedState_def restState_def vadd_def smul_def vz_def)
  then have g: "vz (position s1) \<ge> 0" unfolding i by simp
  have "attitude (calculateNewState firstRow exampleParams exampleTables
         [0, 0, 0, 0, 0] [0, 0, 0, 0, 0] (0, 0, 0) (0, 0, 0) [0, 0, 0, 0, 0, 0, 0, 0] 0.0025
         tiltedState) = (1, 0.2, 0.10, 0.05)"
    using calculateNewState_ground(3) [OF i g] integrateState_props(2) [OF f i]
    by (simp add: tiltedState_def)
  moreover have "(102 / 100 :: real) < sqrt (10525 / 10000)"
    by (rule real_less_rsqrt) (simp add: power2_eq_square)
  ultimately show ?thesis
    by (simp add: qnorm_def qsquaredNorm_def)
qed

subsection \<open>Ground contact\<close>

lemma idle_thruster: "thruster firstRow exampleTables 0 out = (0, 0, 0)"
  by (simp add: thruster_def firstRow_def exampleTables_def rows_def lerp_def Let_def)

lemma lift_zeroThrust: "zeroThrust firstRow exampleTables liftTick"
  by (simp add: zeroThrust_def liftTick_def upt_0_5 idle_thruster del: set_upt)

lemma calculateNewState_air_vel:
  assumes "integrateState findPrev p tb th0 tq0 M F a dt s = (s1, R, Fs)"
    and "\<not> vz (position s1) \<ge> 0"
  shows "linearVel (calculateNewState findPrev p tb th0 tq0 M F a dt s) = linearVel s1"
  using assms by (simp add: calculateNewState_def Let_def)

lemma lift_step:
  assumes sz: "length (Fmotors s) = 5" "length (Mmotors s) = 5"
    and w: "angularVel s = (0, 0, 0)" and q: "attitude s = (1, 0, 0, 0)"
    and v: "linearVel s = (0, 0, 0)" and z: "vz (position s) = 0"
    and i: "integrateState firstRow exampleParams exampleTables
        [0, 0, 0, 0, 0] [0, 0, 0, 0, 0] (0, 0, 0) (0, 0, - 1000) [0, 0, 0, 0, 0, 0, 0, 0] 0.0025 s
          = (s1, R, Fs)"
  shows "linearVel s1 = (0, 0, 0.0025 * (- 1000 / 7 + 9.8066))"
    and "vz (position s1) = 0.0025 * (0.0025 * (- 1000 / 7 + 9.8066))"
proof -
  obtain f0 f1 f2 f3 f4 where F: "Fmotors s = [f0, f1, f2, f3, f4]"
    using sz(1) by (auto simp: length_Suc_conv eval_nat_numeral)
  obtain m0 m1 m2 m3 m4 where Mm: "Mmotors s = [m0, m1, m2, m3, m4]"
    using sz(2) by (auto simp: length_Suc_conv eval_nat_numeral)
  obtain x y z' where P: "position s = (x, y, z')" by (metis prod_cases3)
  have f: "fold (thrusterStep firstRow exampleTables [0, 0, 0, 0, 0, 0, 0, 0]) [0..<5]
             ([0, 0, 0, 0, 0], [0, 0, 0, 0, 0], s)
           = ([0, 0, 0, 0, 0], [0, 0, 0, 0, 0],
              s\<lparr>motorsRpm := (motorsRpm s)[0 := 0, 1 := 0, 2 := 0, 3 := 0, 4 := 0]\<rparr>)"
    by (simp add: upt_0_5 thrusterStep_def idle_thruster)
  note e = i [unfolded integrateState_staged [OF f]]
  show "linearVel s1 = (0, 0, 0.0025 * (- 1000 / 7 + 9.8066))"
    and "vz (position s1) = 0.0025 * (0.0025 * (- 1000 / 7 + 9.8066))"
    using e z
    by (auto simp: F Mm P w q v upt_rec exampleParams_def vadd_def vsub_def smul_def sdiv_def
        cross_def mulMV_def inverse3_def determinant3_def transpose3_def toRotationMatrix_def
        calculateAngularAccel_def attitudeStep_def qmul_def qadd_def qscale_def qnormalize_def
        qsquaredNorm_def qdiv_def vz_def Let_def)
qed

text \<open>
  C3, as the code has it. If the position that one call of \<^verbatim>\<open>calculateNewState\<close>
  integrates has a vertical component of at least 0, then after the call the linear and
  the angular velocity are zero, the attitude is the stored initial attitude and the five
  rpm values are zero. From there on, for a vehicle of positive mass under a gravity that
  is not negative, every run of ticks with zero-thrust input in which no aerodynamic force
  acts keeps the linear and the angular velocity at zero and the attitude at the initial
  attitude.
\<close>

theorem ground_contact_reset:
  assumes "sized s"
    and "vz (position (fst (integrateState findPrev p tb th0 tq0 M F a dt s))) \<ge> 0"
  shows "linearVel (calculateNewState findPrev p tb th0 tq0 M F a dt s) = (0, 0, 0) \<and>
         angularVel (calculateNewState findPrev p tb th0 tq0 M F a dt s) = (0, 0, 0) \<and>
         attitude (calculateNewState findPrev p tb th0 tq0 M F a dt s) = initialAttitude s \<and>
         motorsRpm (calculateNewState findPrev p tb th0 tq0 M F a dt s) = [0, 0, 0, 0, 0] \<and>
         (0 < mass p \<and> 0 \<le> gravity p \<and>
          (\<forall>t \<in> set ts. zeroThrust findPrev tb t \<and> noAeroForce t) \<longrightarrow>
            linearVel (ticks findPrev p tb
                (calculateNewState findPrev p tb th0 tq0 M F a dt s) ts) = (0, 0, 0) \<and>
            angularVel (ticks findPrev p tb
                (calculateNewState findPrev p tb th0 tq0 M F a dt s) ts) = (0, 0, 0) \<and>
            attitude (ticks findPrev p tb
                (calculateNewState findPrev p tb th0 tq0 M F a dt s) ts) = initialAttitude s)"
proof -
  obtain s1 R Fs where i: "integrateState findPrev p tb th0 tq0 M F a dt s = (s1, R, Fs)"
    by (metis prod_cases3)
  have g: "vz (position s1) \<ge> 0" using assms(2) i by simp
  obtain th tq r where
    f: "fold (thrusterStep findPrev tb a) [0..<5] (th0, tq0, s) = (th, tq, s\<lparr>motorsRpm := r\<rparr>)"
    using fold_thrusterStep_state by blast
  have ia: "initialAttitude s1 = initialAttitude s"
    using integrateState_props(2) [OF f i] .
  note gr = calculateNewState_ground [OF i g]
  let ?s' = "calculateNewState findPrev p tb th0 tq0 M F a dt s"
  have "length (motorsRpm s1) = 5"
    using integrateState_length_Fmotors(2) [OF i] assms(1) by (simp add: sized_def)
  then have "map (\<lambda>_. 0 :: real) (motorsRpm s1) = [0, 0, 0, 0, 0]"
    by (intro nth_equalityI) (auto simp: less_Suc_eq eval_nat_numeral)
  then have rpm: "motorsRpm ?s' = [0, 0, 0, 0, 0]" using gr(5) by simp
  have len: "length (Fmotors ?s') = 5"
    using gr(7) integrateState_length_Fmotors(1) [OF i] assms(1) by (simp add: sized_def)
  have att: "attitude ?s' = initialAttitude ?s'" using gr(3) gr(4) by simp
  have "linearVel (ticks findPrev p tb ?s' ts) = (0, 0, 0) \<and>
        angularVel (ticks findPrev p tb ?s' ts) = (0, 0, 0) \<and>
        attitude (ticks findPrev p tb ?s' ts) = initialAttitude ?s'"
    if "0 < mass p" "0 \<le> gravity p"
      "\<forall>t \<in> set ts. zeroThrust findPrev tb t \<and> noAeroForce t"
    using that ticks_landed [OF _ that(2) that(3) len gr(1) gr(6) gr(2) att] by simp
  then show ?thesis
    using gr(1) gr(2) gr(3) gr(4) rpm ia by simp
qed

theorem ground_contact_reset_witness:
  "sized descendingState \<and>
   vz (position (fst (integrateState firstRow exampleParams exampleTables
         [0, 0, 0, 0, 0] [0, 0, 0, 0, 0] (0, 0, 0) (0, 0, 0) [0, 0, 0, 0, 0, 0, 0, 0] 0.0025
         descendingState))) \<ge> 0 \<and>
   0 < mass exampleParams \<and> 0 \<le> gravity exampleParams \<and>
   linearVel (calculateNewState firstRow exampleParams exampleTables
         [0, 0, 0, 0, 0] [0, 0, 0, 0, 0] (0, 0, 0) (0, 0, 0) [0, 0, 0, 0, 0, 0, 0, 0] 0.0025
         descendingState) = (0, 0, 0) \<and>
   motorsRpm (calculateNewState firstRow exampleParams exampleTables
         [0, 0, 0, 0, 0] [0, 0, 0, 0, 0] (0, 0, 0) (0, 0, 0) [0, 0, 0, 0, 0, 0, 0, 0] 0.0025
         descendingState) = [0, 0, 0, 0, 0] \<and>
   angularVel (ticks firstRow exampleParams exampleTables
       (calculateNewState firstRow exampleParams exampleTables
         [0, 0, 0, 0, 0] [0, 0, 0, 0, 0] (0, 0, 0) (0, 0, 0) [0, 0, 0, 0, 0, 0, 0, 0] 0.0025
         descendingState) [idleTick, idleTick]) = (0, 0, 0) \<and>
   attitude (ticks firstRow exampleParams exampleTables
       (calculateNewState firstRow exampleParams exampleTables
         [0, 0, 0, 0, 0] [0, 0, 0, 0, 0] (0, 0, 0) (0, 0, 0) [0, 0, 0, 0, 0, 0, 0, 0] 0.0025
         descendingState) [idleTick, idleTick]) = (1, 0, 0, 0)"
proof -
  have sz: "sized descendingState"
    by (simp add: sized_def descendingState_def restState_def)
  have g: "vz (position (fst (integrateState firstRow exampleParams exampleTables
         [0, 0, 0, 0, 0] [0, 0, 0, 0, 0] (0, 0, 0) (0, 0, 0) [0, 0, 0, 0, 0, 0, 0, 0] 0.0025
         descendingState))) \<ge> 0"
    by (subst idle_position)
      (simp_all add: descendingState_def restState_def vadd_def smul_def vz_def)
  have p: "0 < mass exampleParams" "0 \<le> gravity exampleParams"
    by (simp_all add: exampleParams_def)
  have ia: "initialAttitude descendingState = (1, 0, 0, 0)"
    by (simp add: descendingState_def restState_def)
  show ?thesis
    using ground_contact_reset [OF sz g, of "[idleTick, idleTick]"] sz g p ia idle_zeroThrust
      idle_noAeroForce
    by simp
qed

text \<open>Zero-thrust input alone does not keep the vehicle on the ground: after the landing
  of the example above, a tick with all actuators at zero and an aerodynamic force of
  1000 N upwards on the vehicle of 7 kg integrates a vertical position below 0, so
  \<^verbatim>\<open>land\<close> is not called and the linear velocity after the tick is not zero.\<close>

theorem ground_contact_reset_counterexample:
  "sized descendingState \<and>
   vz (position (fst (integrateState firstRow exampleParams exampleTables
         [0, 0, 0, 0, 0] [0, 0, 0, 0, 0] (0, 0, 0) (0, 0, 0) [0, 0, 0, 0, 0, 0, 0, 0] 0.0025
         descendingState))) \<ge> 0 \<and>
   zeroThrust firstRow exampleTables liftTick \<and>
   linearVel (ticks firstRow exampleParams exampleTables
       (calculateNewState firstRow exampleParams exampleTables
         [0, 0, 0, 0, 0] [0, 0, 0, 0, 0] (0, 0, 0) (0, 0, 0) [0, 0, 0, 0, 0, 0, 0, 0] 0.0025
         descendingState) [liftTick]) \<noteq> (0, 0, 0)"
proof -
  let ?s' = "calculateNewState firstRow exampleParams exampleTables
         [0, 0, 0, 0, 0] [0, 0, 0, 0, 0] (0, 0, 0) (0, 0, 0) [0, 0, 0, 0, 0, 0, 0, 0] 0.0025
         descendingState"
  have sz: "sized descendingState"
    by (simp add: sized_def descendingState_def restState_def)
  have g0: "vz (position (fst (integrateState firstRow exampleParams exampleTables
         [0, 0, 0, 0, 0] [0, 0, 0, 0, 0] (0, 0, 0) (0, 0, 0) [0, 0, 0, 0, 0, 0, 0, 0] 0.0025
         descendingState))) \<ge> 0"
    by (subst idle_position)
      (simp_all add: descendingState_def restState_def vadd_def smul_def vz_def)
  obtain s1 R Fs where i: "integrateState firstRow exampleParams exampleTables
      [0, 0, 0, 0, 0] [0, 0, 0, 0, 0] (0, 0, 0) (0, 0, 0) [0, 0, 0, 0, 0, 0, 0, 0] 0.0025
      descendingState = (s1, R, Fs)"
    by (metis prod_cases3)
  have g: "vz (position s1) \<ge> 0" using g0 unfolding i by simp
  obtain th tq r where
    f: "fold (thrusterStep firstRow exampleTables [0, 0, 0, 0, 0, 0, 0, 0]) [0..<5]
          ([0, 0, 0, 0, 0], [0, 0, 0, 0, 0], descendingState)
            = (th, tq, descendingState\<lparr>motorsRpm := r\<rparr>)"
    using fold_thrusterStep_state by blast
  note pr = integrateState_props [OF f i]
  note gr = calculateNewState_ground [OF i g]
  have len: "length (Fmotors ?s') = 5" "length (Mmotors ?s') = 5"
    using gr(7) gr(8) integrateState_length_Fmotors(1) [OF i] pr(5) sz
    by (simp_all add: sized_def)
  have att: "attitude ?s' = (1, 0, 0, 0)"
    using gr(3) pr(2) by (simp add: descendingState_def restState_def)
  obtain s2 R2 Fs2 where j: "integrateState firstRow exampleParams exampleTables
      [0, 0, 0, 0, 0] [0, 0, 0, 0, 0] (0, 0, 0) (0, 0, - 1000) [0, 0, 0, 0, 0, 0, 0, 0] 0.0025
      ?s' = (s2, R2, Fs2)"
    by (metis prod_cases3)
  note lift = lift_step [OF len gr(2) att gr(1) gr(6) j]
  have "\<not> vz (position s2) \<ge> 0"
    unfolding lift(2) by simp
  then have "linearVel (calculateNewState firstRow exampleParams exampleTables
      [0, 0, 0, 0, 0] [0, 0, 0, 0, 0] (0, 0, 0) (0, 0, - 1000) [0, 0, 0, 0, 0, 0, 0, 0] 0.0025
      ?s') = (0, 0, 0.0025 * (- 1000 / 7 + 9.8066))"
    using calculateNewState_air_vel [OF j] lift(1) by simp
  then have "linearVel (ticks firstRow exampleParams exampleTables ?s' [liftTick]) \<noteq> (0, 0, 0)"
    unfolding liftTick_def by simp
  then show ?thesis
    using sz g0 lift_zeroThrust by simp
qed

end
